theory Spec2Isabelle
  imports Complex_Main "HOL-Library.Log_Nat" "HOL-Library.AList"
begin

section \<open>Colordle: colour grid, colour geometry, daily state store, session controller\<close>

text \<open>
  A shallow embedding of the puzzle logic of the repository: the colour utilities
  (\<^verbatim>\<open>generateColorGrid\<close>, \<^verbatim>\<open>hslToHex\<close>, \<^verbatim>\<open>findColorPosition\<close>, \<^verbatim>\<open>hexToRgb\<close>,
  \<^verbatim>\<open>isWithinProximity\<close>), the storage utilities (\<^verbatim>\<open>loadGameState\<close>, \<^verbatim>\<open>saveGameState\<close>)
  and the click handler of the page component (\<^verbatim>\<open>handleColorClick\<close>) with the timers it
  starts.
\<close>

subsection \<open>JavaScript numbers\<close>

text \<open>
  A JavaScript \<^verbatim>\<open>number\<close> is an IEEE 754 binary64 value. A finite double is modelled by the
  rational number it denotes, and every arithmetic operator by the exact operation followed
  by rounding to the nearest double, ties to the even significand (\<open>fl\<close>). The model
  covers zero, the normal and the subnormal range; it has no infinities and no NaN, and
  both zeros are the rational \<open>0\<close>. All numbers of the colour computations lie between
  \<open>2\<^sup>-\<^sup>6\<^sup>0\<close> and \<open>2\<^sup>9\<close> in magnitude, or are zero.
\<close>

type_synonym number = rat

definition pow2 :: "int \<Rightarrow> rat" where
  "pow2 k = (if 0 \<le> k then 2 ^ nat k else 1 / 2 ^ nat (- k))"

text \<open>The binary exponent of a non-zero number: \<open>pow2 (expo q) \<le> abs q < pow2 (expo q + 1)\<close>.\<close>

definition expo :: "rat \<Rightarrow> int" where
  "expo q = (case quotient_of (abs q) of (a, b) \<Rightarrow>
       (let k = bitlen a - bitlen b in if pow2 k \<le> abs q then k else k - 1))"

definition roundTiesToEven :: "'a::floor_ceiling \<Rightarrow> int" where
  "roundTiesToEven x =
     (let f = \<lfloor>x\<rfloor>; d = x - of_int f
      in if d < 1 / 2 then f else if 1 / 2 < d then f + 1 else if even f then f else f + 1)"

text \<open>\<open>roundAt k q\<close> is the multiple of \<open>2\<^sup>k\<close> nearest to \<open>q\<close>, ties to even.\<close>

definition roundAt :: "int \<Rightarrow> rat \<Rightarrow> rat" where
  "roundAt k q = of_int (roundTiesToEven (q / pow2 k)) * pow2 k"

text \<open>
  Rounding to a double: 53 significant bits, so the unit in the last place of a number
  with exponent \<open>e\<close> is \<open>2\<^sup>e\<^sup>-\<^sup>5\<^sup>2\<close>; below the smallest normal exponent \<open>-1022\<close>
  the spacing stays \<open>2\<^sup>-\<^sup>1\<^sup>0\<^sup>7\<^sup>4\<close>.
\<close>

definition fl :: "rat \<Rightarrow> number" where
  "fl q = (if q = 0 then 0 else roundAt (max (expo q) (- 1022) - 52) q)"

definition fadd :: "number \<Rightarrow> number \<Rightarrow> number" where "fadd a b = fl (a + b)"
definition fsub :: "number \<Rightarrow> number \<Rightarrow> number" where "fsub a b = fl (a - b)"
definition fmul :: "number \<Rightarrow> number \<Rightarrow> number" where "fmul a b = fl (a * b)"
definition fdiv :: "number \<Rightarrow> number \<Rightarrow> number" where "fdiv a b = fl (a / b)"

text \<open>
  The remainder operator \<^verbatim>\<open>a % b\<close> truncates the quotient towards zero; its result is
  exact. \<^verbatim>\<open>Math.round\<close> rounds to the nearest integer, ties towards \<open>+\<infinity>\<close>.
\<close>

definition trunc :: "rat \<Rightarrow> int" where
  "trunc x = (if 0 \<le> x then \<lfloor>x\<rfloor> else \<lceil>x\<rceil>)"

definition fmod :: "number \<Rightarrow> number \<Rightarrow> number" where
  "fmod a b = a - b * of_int (trunc (a / b))"

definition Math_round :: "number \<Rightarrow> int" where
  "Math_round x = \<lfloor>x + 1 / 2\<rfloor>"

text \<open>
  \<^verbatim>\<open>Math.sqrt\<close> on a number that is positive or zero: the double nearest to the square
  root, as the IEEE operation returns it. The root is taken in the reals, so the resulting
  double is given as a real number. The root of a positive double is in the normal range.
\<close>

definition Math_sqrt :: "number \<Rightarrow> real" where
  "Math_sqrt x =
     (let y = sqrt (of_rat x)
      in if y = 0 then 0
         else (let u = 2 powi (\<lfloor>log 2 y\<rfloor> - 52) in of_int (roundTiesToEven (y / u)) * u))"

subsection \<open>Strings\<close>

text \<open>
  Strings are lists of characters. The colour strings of the program are ASCII;
  \<^verbatim>\<open>toUpperCase\<close> and \<^verbatim>\<open>toLowerCase\<close> are modelled on ASCII letters and leave every other
  character as it is.
\<close>

definition upperChar :: "char \<Rightarrow> char" where
  "upperChar c =
     (case map_of (zip ''abcdefghijklmnopqrstuvwxyz'' ''ABCDEFGHIJKLMNOPQRSTUVWXYZ'') c of
        Some u \<Rightarrow> u | None \<Rightarrow> c)"

definition lowerChar :: "char \<Rightarrow> char" where
  "lowerChar c =
     (case map_of (zip ''ABCDEFGHIJKLMNOPQRSTUVWXYZ'' ''abcdefghijklmnopqrstuvwxyz'') c of
        Some u \<Rightarrow> u | None \<Rightarrow> c)"

definition toUpperCase :: "string \<Rightarrow> string" where
  "toUpperCase s = map upperChar s"

definition toLowerCase :: "string \<Rightarrow> string" where
  "toLowerCase s = map lowerChar s"

text \<open>\<^verbatim>\<open>n.toString(16)\<close> for an integral number, and \<^verbatim>\<open>s.padStart(n, c)\<close>.\<close>

definition hexDigit :: "nat \<Rightarrow> char" where
  "hexDigit d = ''0123456789abcdef'' ! d"

fun toHex :: "nat \<Rightarrow> string" where
  "toHex n = (if n < 16 then [hexDigit n] else toHex (n div 16) @ [hexDigit (n mod 16)])"

declare toHex.simps [simp del]

definition toString16 :: "int \<Rightarrow> string" where
  "toString16 n = (if n < 0 then CHR ''-'' # toHex (nat (- n)) else toHex (nat n))"

definition padStart :: "nat \<Rightarrow> char \<Rightarrow> string \<Rightarrow> string" where
  "padStart n c s = replicate (n - length s) c @ s"

subsection \<open>Colour grid generator\<close>

text \<open>
  \<^verbatim>\<open>hslToHex(h, s, l)\<close>. The three channels are converted by the same expression
  \<^verbatim>\<open>Math.round((v + m) * 255).toString(16).padStart(2, "0")\<close>, here \<open>channelHex\<close> applied
  to \<open>v + m\<close>.
\<close>

definition channelHex :: "number \<Rightarrow> string" where
  "channelHex v = padStart 2 (CHR ''0'') (toString16 (Math_round (fmul v 255)))"

definition hslToHex :: "number \<Rightarrow> number \<Rightarrow> number \<Rightarrow> string" where
  "hslToHex h s0 l0 =
     (let s = fdiv s0 100;
          l = fdiv l0 100;
          c = fmul (fsub 1 (abs (fsub (fmul 2 l) 1))) s;
          x = fmul c (fsub 1 (abs (fsub (fmod (fdiv h 60) 2) 1)));
          m = fsub l (fdiv c 2);
          (r, g, b) =
            (if 0 \<le> h \<and> h < 60 then (c, x, 0)
             else if 60 \<le> h \<and> h < 120 then (x, c, 0)
             else if 120 \<le> h \<and> h < 180 then (0, c, x)
             else if 180 \<le> h \<and> h < 240 then (0, x, c)
             else if 240 \<le> h \<and> h < 300 then (x, 0, c)
             else if 300 \<le> h \<and> h < 360 then (c, 0, x)
             else (0, 0, 0));
          rHex = channelHex (fadd r m);
          gHex = channelHex (fadd g m);
          bHex = channelHex (fadd b m)
      in toUpperCase (CHR ''#'' # rHex @ gHex @ bHex))"

text \<open>
  \<^verbatim>\<open>generateColorGrid()\<close>: two nested counting loops that push one colour per cell.
  \<open>cellColor\<close> is the body of the inner loop.
\<close>

definition cellColor :: "nat \<Rightarrow> nat \<Rightarrow> nat \<Rightarrow> string" where
  "cellColor cols row col =
     (let hue = fmul (fdiv (of_nat col) (of_nat cols)) 360;
          (saturation, lightness) =
            (if row < 4 then (100, fsub 95 (fmul (of_nat row) 10))
             else (100, fsub 60 (fmul (fsub (of_nat row) 4) 4)))
      in hslToHex hue saturation lightness)"

definition generateColorGrid :: "string list" where
  "generateColorGrid =
     (let cols = 20; rows = 16
      in fold (\<lambda>row colors. fold (\<lambda>col colors. colors @ [cellColor cols row col]) [0..<cols] colors)
           [0..<rows] [])"

text \<open>
  Proof devices for evaluating the grid. The colour of a cell depends on its row only
  through the chroma \<open>c\<close>, the offset \<open>m\<close> and the strings of the largest and the
  smallest channel (\<open>rowParams\<close>), and on its column only through the hue and the factor
  \<open>1 - \<bar>(h / 60) mod 2 - 1\<bar>\<close> (\<open>colParams\<close>); \<open>mixColor\<close> combines the two, and lemma
  \<open>cellColor_staged\<close> below shows that this is the cell colour.
\<close>

definition rowParams :: "nat \<Rightarrow> number \<times> number \<times> string \<times> string" where
  "rowParams i =
     (let lightness = (if i < 4 then fsub 95 (fmul (of_nat i) 10)
                       else fsub 60 (fmul (fsub (of_nat i) 4) 4));
          s = fdiv 100 100;
          l = fdiv lightness 100;
          c = fmul (fsub 1 (abs (fsub (fmul 2 l) 1))) s;
          m = fsub l (fdiv c 2)
      in (c, m, channelHex (fadd c m), channelHex (fadd 0 m)))"

definition colParams :: "nat \<Rightarrow> nat \<Rightarrow> number \<times> number" where
  "colParams cols j =
     (let hue = fmul (fdiv (of_nat j) (of_nat cols)) 360
      in (hue, fsub 1 (abs (fsub (fmod (fdiv hue 60) 2) 1))))"

definition paint :: "number \<Rightarrow> string \<Rightarrow> string \<Rightarrow> string \<Rightarrow> string" where
  "paint h hi mid lo =
     toUpperCase (CHR ''#'' #
       (if 0 \<le> h \<and> h < 60 then hi @ mid @ lo
        else if 60 \<le> h \<and> h < 120 then mid @ hi @ lo
        else if 120 \<le> h \<and> h < 180 then lo @ hi @ mid
        else if 180 \<le> h \<and> h < 240 then lo @ mid @ hi
        else if 240 \<le> h \<and> h < 300 then mid @ lo @ hi
        else if 300 \<le> h \<and> h < 360 then hi @ lo @ mid
        else lo @ lo @ lo))"

fun mixColor :: "number \<times> number \<times> string \<times> string \<Rightarrow> number \<times> number \<Rightarrow> string" where
  "mixColor (c, m, hi, lo) (h, t) = paint h hi (channelHex (fadd (fmul c t) m)) lo"

text \<open>The 320 colours, row by row; lemma \<open>generateColorGrid_value\<close> shows that this is the grid.\<close>

definition gridColors :: "string list" where
  "gridColors =
     [''#FFE5E5'', ''#FFEDE5'', ''#FFF5E5'', ''#FFFCE5'', ''#FAFFE5'', ''#F2FFE5'', ''#EBFFE5'',
      ''#E5FFE8'', ''#E5FFF0'', ''#E5FFF7'', ''#E5FFFF'', ''#E5F7FF'', ''#E5F0FF'', ''#E5E8FF'',
      ''#EBE5FF'', ''#F2E5FF'', ''#FAE5FF'', ''#FFE5FC'', ''#FFE5F5'', ''#FFE5ED'', ''#FFB3B3'',
      ''#FFC9B3'', ''#FFE0B3'', ''#FFF7B3'', ''#F0FFB3'', ''#D9FFB3'', ''#C2FFB3'', ''#B3FFBA'',
      ''#B3FFD1'', ''#B3FFE8'', ''#B3FFFF'', ''#B3E8FF'', ''#B3D1FF'', ''#B3BAFF'', ''#C2B3FF'',
      ''#D9B3FF'', ''#F0B3FF'', ''#FFB3F7'', ''#FFB3E0'', ''#FFB3C9'', ''#FF8080'', ''#FFA680'',
      ''#FFCC80'', ''#FFF280'', ''#E6FF80'', ''#BFFF80'', ''#99FF80'', ''#80FF8C'', ''#80FFB3'',
      ''#80FFD9'', ''#80FFFF'', ''#80D9FF'', ''#80B3FF'', ''#808CFF'', ''#9980FF'', ''#BF80FF'',
      ''#E580FF'', ''#FF80F2'', ''#FF80CC'', ''#FF80A6'', ''#FF4D4D'', ''#FF824D'', ''#FFB84D'',
      ''#FFED4D'', ''#DBFF4D'', ''#A6FF4D'', ''#70FF4D'', ''#4DFF5E'', ''#4DFF94'', ''#4DFFC9'',
      ''#4DFFFF'', ''#4DC9FF'', ''#4D94FF'', ''#4D5EFF'', ''#704DFF'', ''#A64DFF'', ''#DB4DFF'',
      ''#FF4DED'', ''#FF4DB8'', ''#FF4D82'', ''#FF3333'', ''#FF7033'', ''#FFAD33'', ''#FFEB33'',
      ''#D6FF33'', ''#99FF33'', ''#5CFF33'', ''#33FF47'', ''#33FF85'', ''#33FFC2'', ''#33FFFF'',
      ''#33C2FF'', ''#3385FF'', ''#3347FF'', ''#5C33FF'', ''#9933FF'', ''#D633FF'', ''#FF33EB'',
      ''#FF33AD'', ''#FF3370'', ''#FF1F1F'', ''#FF621F'', ''#FFA51F'', ''#FFE91F'', ''#D2FF1F'',
      ''#8FFF1F'', ''#4BFF1F'', ''#1FFF35'', ''#1FFF78'', ''#1FFFBC'', ''#1FFFFF'', ''#1FBCFF'',
      ''#1F78FF'', ''#1F35FF'', ''#4B1FFF'', ''#8F1FFF'', ''#D21FFF'', ''#FF1FE9'', ''#FF1FA5'',
      ''#FF1F62'', ''#FF0A0A'', ''#FF540A'', ''#FF9D0A'', ''#FFE70A'', ''#CEFF0A'', ''#85FF0A'',
      ''#3BFF0A'', ''#0AFF23'', ''#0AFF6C'', ''#0AFFB6'', ''#0AFFFF'', ''#0AB6FF'', ''#0A6CFF'',
      ''#0A23FF'', ''#3B0AFF'', ''#850AFF'', ''#CE0AFF'', ''#FF0AE7'', ''#FF0A9D'', ''#FF0A54'',
      ''#F50000'', ''#F54900'', ''#F59300'', ''#F5DC00'', ''#C4F500'', ''#7AF500'', ''#31F500'',
      ''#00F518'', ''#00F562'', ''#00F5AB'', ''#00F5F5'', ''#00ABF5'', ''#0062F5'', ''#0018F5'',
      ''#3100F5'', ''#7A00F5'', ''#C400F5'', ''#F500DC'', ''#F50093'', ''#F50049'', ''#E00000'',
      ''#E04300'', ''#E08700'', ''#E0CA00'', ''#B4E000'', ''#70E000'', ''#2DE000'', ''#00E016'',
      ''#00E05A'', ''#00E09D'', ''#00E0E0'', ''#009DE0'', ''#005AE0'', ''#0016E0'', ''#2D00E0'',
      ''#7000E0'', ''#B400E0'', ''#E000CA'', ''#E00087'', ''#E00043'', ''#CC0000'', ''#CC3D00'',
      ''#CC7A00'', ''#CCB800'', ''#A3CC00'', ''#66CC00'', ''#29CC00'', ''#00CC14'', ''#00CC52'',
      ''#00CC8F'', ''#00CCCC'', ''#008FCC'', ''#0052CC'', ''#0014CC'', ''#2900CC'', ''#6600CC'',
      ''#A300CC'', ''#CC00B8'', ''#CC007A'', ''#CC003D'', ''#B80000'', ''#B83700'', ''#B86E00'',
      ''#B8A500'', ''#93B800'', ''#5CB800'', ''#25B800'', ''#00B812'', ''#00B849'', ''#00B881'',
      ''#00B8B8'', ''#0081B8'', ''#0049B8'', ''#0012B8'', ''#2500B8'', ''#5C00B8'', ''#9300B8'',
      ''#B800A5'', ''#B8006E'', ''#B80037'', ''#A30000'', ''#A33100'', ''#A36200'', ''#A39300'',
      ''#83A300'', ''#52A300'', ''#21A300'', ''#00A310'', ''#00A341'', ''#00A372'', ''#00A3A3'',
      ''#0072A3'', ''#0041A3'', ''#0010A3'', ''#2100A3'', ''#5200A3'', ''#8300A3'', ''#A30093'',
      ''#A30062'', ''#A30031'', ''#8F0000'', ''#8F2B00'', ''#8F5600'', ''#8F8100'', ''#728F00'',
      ''#478F00'', ''#1D8F00'', ''#008F0E'', ''#008F39'', ''#008F64'', ''#008F8F'', ''#00648F'',
      ''#00398F'', ''#000E8F'', ''#1D008F'', ''#47008F'', ''#72008F'', ''#8F0081'', ''#8F0056'',
      ''#8F002B'', ''#7A0000'', ''#7A2500'', ''#7A4900'', ''#7A6E00'', ''#627A00'', ''#3D7A00'',
      ''#187A00'', ''#007A0C'', ''#007A31'', ''#007A56'', ''#007A7A'', ''#00567A'', ''#00317A'',
      ''#000C7A'', ''#18007A'', ''#3D007A'', ''#62007A'', ''#7A006E'', ''#7A0049'', ''#7A0025'',
      ''#660000'', ''#661F00'', ''#663D00'', ''#665C00'', ''#526600'', ''#336600'', ''#146600'',
      ''#00660A'', ''#006629'', ''#006647'', ''#006666'', ''#004766'', ''#002966'', ''#000A66'',
      ''#140066'', ''#330066'', ''#520066'', ''#66005C'', ''#66003D'', ''#66001F'', ''#520000'',
      ''#521800'', ''#523100'', ''#524900'', ''#415200'', ''#295200'', ''#105200'', ''#005208'',
      ''#005221'', ''#005239'', ''#005252'', ''#003952'', ''#002152'', ''#000852'', ''#100052'',
      ''#290052'', ''#410052'', ''#520049'', ''#520031'', ''#520018'']"

text \<open>
  A colour as the specification describes it: \<^verbatim>\<open>#\<close> followed by six hexadecimal digits
  in upper case.
\<close>

definition wellFormedColor :: "string \<Rightarrow> bool" where
  "wellFormedColor s =
     (case s of [] \<Rightarrow> False
      | c # cs \<Rightarrow> c = CHR ''#'' \<and> length cs = 6 \<and>
          list_all (\<lambda>d. d \<in> set ''0123456789ABCDEF'') cs)"

text \<open>
  The HSL scheme in the specification's words: the hue of column \<open>j\<close> is
  \<open>(j / COLS) \<times> 360\<close>, computed in doubles as written; the lightness of row \<open>i\<close> is
  \<open>95 - i \<times> 10\<close> for the rows 0 to 3 and \<open>60 - (i - 4) \<times> 4\<close> for the rows 4 to 15; the
  saturation is 100.
\<close>

definition specHue :: "nat \<Rightarrow> number" where
  "specHue j = fmul (fdiv (of_nat j) 20) 360"

definition specLightness :: "nat \<Rightarrow> number" where
  "specLightness i = (if i < 4 then 95 - of_nat i * 10 else 60 - (of_nat i - 4) * 4)"

subsection \<open>Positions and proximity\<close>

text \<open>
  \<^verbatim>\<open>interface Position { row: number; col: number }\<close>. Grid positions are whole numbers
  (they come from \<^verbatim>\<open>Math.floor(i / 20)\<close> and \<^verbatim>\<open>i % 20\<close>), so the fields are integers.
\<close>

record Position =
  row :: int
  col :: int

text \<open>
  \<^verbatim>\<open>isWithinProximity(guessPos, targetPos, maxDistance)\<close>: the Chebyshev distance of the
  two positions, accepted when it is at most \<^verbatim>\<open>maxDistance\<close> and greater than zero.
\<close>

definition isWithinProximity :: "Position \<Rightarrow> Position \<Rightarrow> int \<Rightarrow> bool" where
  "isWithinProximity guessPos targetPos maxDistance =
     (let horizontalDistance = abs (col guessPos - col targetPos);
          verticalDistance = abs (row guessPos - row targetPos);
          distance = max horizontalDistance verticalDistance
      in distance \<le> maxDistance \<and> distance > 0)"

subsection \<open>Colour lookup\<close>

text \<open>
  \<^verbatim>\<open>hexToRgb(hex)\<close> matches \<^verbatim>\<open>/^#?([a-f\d]{2})([a-f\d]{2})([a-f\d]{2})$/i\<close>: an optional
  \<^verbatim>\<open>#\<close> and then exactly six hexadecimal digits. On a match the three groups are read by
  \<^verbatim>\<open>parseInt(_, 16)\<close>; without a match the result is black.
\<close>

text \<open>The result object \<^verbatim>\<open>{ r, g, b }\<close> is the triple of its three fields, in this order.\<close>

type_synonym rgb = "int \<times> int \<times> int"

definition isHexDigit :: "char \<Rightarrow> bool" where
  "isHexDigit c = (c \<in> set ''0123456789abcdefABCDEF'')"

definition hexBody :: "string \<Rightarrow> string" where
  "hexBody hex = (case hex of [] \<Rightarrow> [] | c # cs \<Rightarrow> if c = CHR ''#'' then cs else c # cs)"

definition hexMatch :: "string \<Rightarrow> bool" where
  "hexMatch hex = (length (hexBody hex) = 6 \<and> list_all isHexDigit (hexBody hex))"

definition digitValue :: "char \<Rightarrow> int" where
  "digitValue c =
     (case map_of (zip ''0123456789abcdefABCDEF''
        [0, 1, 2, 3, 4, 5, 6, 7, 8, 9, 10, 11, 12, 13, 14, 15, 10, 11, 12, 13, 14, 15]) c of
        Some v \<Rightarrow> v | None \<Rightarrow> 0)"

text \<open>\<^verbatim>\<open>parseInt(s, 16)\<close> on a string of hexadecimal digits.\<close>

definition parseInt16 :: "string \<Rightarrow> int" where
  "parseInt16 s = foldl (\<lambda>acc c. acc * 16 + digitValue c) 0 s"

definition hexToRgb :: "string \<Rightarrow> rgb" where
  "hexToRgb hex =
     (if hexMatch hex
      then (parseInt16 (take 2 (hexBody hex)),
            parseInt16 (take 2 (drop 2 (hexBody hex))),
            parseInt16 (drop 4 (hexBody hex)))
      else (0, 0, 0))"

text \<open>
  \<^verbatim>\<open>colors.findIndex(p)\<close>: the first index whose element satisfies \<open>p\<close>; \<open>None\<close> stands
  for the result \<^verbatim>\<open>-1\<close>.
\<close>

fun findIndexFrom :: "('a \<Rightarrow> bool) \<Rightarrow> 'a list \<Rightarrow> nat \<Rightarrow> nat option" where
  "findIndexFrom p [] i = None"
| "findIndexFrom p (x # xs) i = (if p x then Some i else findIndexFrom p xs (Suc i))"

definition findIndex :: "('a \<Rightarrow> bool) \<Rightarrow> 'a list \<Rightarrow> nat option" where
  "findIndex p xs = findIndexFrom p xs 0"

text \<open>
  The distance of two colours as the code computes it,
  \<^verbatim>\<open>Math.sqrt(Math.pow(dr, 2) + Math.pow(dg, 2) + Math.pow(db, 2))\<close>. The channels are
  integers, so the squares and their sum \<open>distanceSq\<close> are computed exactly; the square
  root is rounded to a double.
\<close>

fun distanceSq :: "rgb \<Rightarrow> rgb \<Rightarrow> int" where
  "distanceSq (r, g, b) (tr, tg, tb) = (r - tr)\<^sup>2 + (g - tg)\<^sup>2 + (b - tb)\<^sup>2"

definition distance :: "rgb \<Rightarrow> rgb \<Rightarrow> real" where
  "distance p q = Math_sqrt (of_int (distanceSq p q))"

text \<open>The Euclidean distance in RGB space, as the specification has it.\<close>

definition euclid :: "rgb \<Rightarrow> rgb \<Rightarrow> real" where
  "euclid p q = sqrt (real_of_int (distanceSq p q))"

text \<open>Colours whose channels lie between 0 and 255; \<open>hexToRgb\<close> returns no others.\<close>

fun channels :: "rgb \<Rightarrow> bool" where
  "channels (r, g, b) = (0 \<le> r \<and> r \<le> 255 \<and> 0 \<le> g \<and> g \<le> 255 \<and> 0 \<le> b \<and> b \<le> 255)"

text \<open>
  The \<^verbatim>\<open>forEach\<close> loop of the nearest-colour search. Its state is the pair
  (\<^verbatim>\<open>closestIndex\<close>, \<^verbatim>\<open>minDistance\<close>); \<open>None\<close> stands for the initial \<^verbatim>\<open>Infinity\<close>.
\<close>

fun closestLoop :: "rgb \<Rightarrow> string list \<Rightarrow> nat \<Rightarrow> nat \<times> real option \<Rightarrow> nat \<times> real option" where
  "closestLoop targetRgb [] idx st = st"
| "closestLoop targetRgb (color # rest) idx (closestIndex, minDistance) =
     (let d = distance (hexToRgb color) targetRgb
      in closestLoop targetRgb rest (Suc idx)
           (if (case minDistance of None \<Rightarrow> True | Some m \<Rightarrow> d < m)
            then (idx, Some d) else (closestIndex, minDistance)))"

text \<open>
  The position of an index: \<^verbatim>\<open>{ row: Math.floor(i / 20), col: i % 20 }\<close>. For an array
  index \<open>i\<close> the floor of the double quotient is \<open>i div 20\<close>.
\<close>

definition positionAt :: "nat \<Rightarrow> Position" where
  "positionAt i = \<lparr>row = int (i div 20), col = int (i mod 20)\<rparr>"

definition findColorPosition :: "string list \<Rightarrow> string \<Rightarrow> Position" where
  "findColorPosition colors targetColor =
     (case findIndex (\<lambda>c. toLowerCase c = toLowerCase targetColor) colors of
        Some exactIndex \<Rightarrow> positionAt exactIndex
      | None \<Rightarrow>
          (let targetRgb = hexToRgb targetColor;
               (closestIndex, minDistance) = closestLoop targetRgb colors 0 (0, None)
           in positionAt closestIndex))"

text \<open>
  The same loop on the squares of the distances, with integer arithmetic only. Lemma
  \<open>closestLoop_sq\<close> shows that it selects the same index.
\<close>

fun closestLoopSq :: "rgb \<Rightarrow> string list \<Rightarrow> nat \<Rightarrow> nat \<times> int option \<Rightarrow> nat \<times> int option" where
  "closestLoopSq targetRgb [] idx st = st"
| "closestLoopSq targetRgb (color # rest) idx (closestIndex, minDistance) =
     (let d = distanceSq (hexToRgb color) targetRgb
      in closestLoopSq targetRgb rest (Suc idx)
           (if (case minDistance of None \<Rightarrow> True | Some m \<Rightarrow> d < m)
            then (idx, Some d) else (closestIndex, minDistance)))"

subsection \<open>Daily state store\<close>

text \<open>
  The store keeps one JSON text in \<^verbatim>\<open>localStorage\<close>. \<^verbatim>\<open>JSON.parse\<close> and
  \<^verbatim>\<open>JSON.stringify\<close> belong to the platform: the model keeps, for a stored text, what
  \<^verbatim>\<open>JSON.parse\<close> makes of it. \<open>Unparseable t\<close> is the text \<open>t\<close>, which \<^verbatim>\<open>JSON.parse\<close>
  rejects with a \<^verbatim>\<open>SyntaxError\<close> (the empty text is one of these); \<open>Parseable v\<close> is a text
  that \<^verbatim>\<open>JSON.parse\<close> reads as the value \<open>v\<close>, and \<^verbatim>\<open>JSON.stringify v\<close> is such a text.
  An object is the list of its properties in insertion order, with distinct keys.
\<close>

datatype json =
    JNull
  | JBool bool
  | JNum int
  | JStr string
  | JArr "json list"
  | JObj "(string \<times> json) list"

datatype stored = Unparseable string | Parseable json

text \<open>\<open>None\<close> stands for the exception.\<close>

fun JSON_parse :: "stored \<Rightarrow> json option" where
  "JSON_parse (Unparseable t) = None"
| "JSON_parse (Parseable v) = Some v"

definition JSON_stringify :: "json \<Rightarrow> stored" where
  "JSON_stringify v = Parseable v"

text \<open>
  Reading the property \<^verbatim>\<open>date\<close> of a parsed value: \<^verbatim>\<open>null.date\<close> throws a
  \<^verbatim>\<open>TypeError\<close> (\<open>None\<close>); an object yields the property or \<^verbatim>\<open>undefined\<close>
  (\<open>Some None\<close>); every other value yields \<^verbatim>\<open>undefined\<close>.
\<close>

fun getDate :: "json \<Rightarrow> json option option" where
  "getDate JNull = None"
| "getDate (JObj props) = Some (map_of props ''date'')"
| "getDate v = Some None"

text \<open>
  \<^verbatim>\<open>localStorage\<close> maps keys to texts. The storage functions return at once when
  \<^verbatim>\<open>window\<close> is undefined (rendering on the server): the environment is \<open>None\<close> there and
  \<open>Some localStorage\<close> in the browser. \<^verbatim>\<open>setItem\<close> and \<^verbatim>\<open>removeItem\<close> are taken to succeed.
  \<^verbatim>\<open>getTodayString()\<close> reads the clock: today's date key is the parameter \<open>today\<close>.
\<close>

type_synonym localStorage = "string \<rightharpoonup> stored"

definition STORAGE_KEY :: string where
  "STORAGE_KEY = ''colordle_game_state''"

text \<open>
  \<^verbatim>\<open>loadGameState()\<close> returns the loaded state (\<open>None\<close> for \<^verbatim>\<open>null\<close>) and the
  environment it leaves behind. Both exceptions of the \<^verbatim>\<open>try\<close> block end in the
  \<^verbatim>\<open>catch\<close> clause, which returns \<^verbatim>\<open>null\<close>.
\<close>

definition loadGameState :: "string \<Rightarrow> localStorage option \<Rightarrow> json option \<times> localStorage option" where
  "loadGameState today window =
     (case window of
        None \<Rightarrow> (None, window)
      | Some localStorage \<Rightarrow>
          (case localStorage STORAGE_KEY of
             None \<Rightarrow> (None, window)
           | Some stored \<Rightarrow>
               if stored = Unparseable [] then (None, window)
               else
                 (case JSON_parse stored of
                    None \<Rightarrow> (None, window)
                  | Some gameState \<Rightarrow>
                      (case getDate gameState of
                         None \<Rightarrow> (None, window)
                       | Some d \<Rightarrow>
                           if d \<noteq> Some (JStr today)
                           then (None, Some (localStorage(STORAGE_KEY := None)))
                           else (Some gameState, window)))))"

text \<open>
  \<^verbatim>\<open>saveGameState(state)\<close> stores \<^verbatim>\<open>{ ...state, date: getTodayString() }\<close>: the
  properties of \<open>state\<close> with \<^verbatim>\<open>date\<close> set, in place when \<open>state\<close> has the property and at
  the end otherwise.
\<close>

definition saveGameState :: "string \<Rightarrow> (string \<times> json) list \<Rightarrow> localStorage option \<Rightarrow> localStorage option" where
  "saveGameState today state window =
     (case window of
        None \<Rightarrow> None
      | Some localStorage \<Rightarrow>
          (let gameState = JObj (AList.update ''date'' (JStr today) state)
           in Some (localStorage(STORAGE_KEY \<mapsto> JSON_stringify gameState))))"

subsection \<open>Session controller\<close>

text \<open>
  The state of the page component that the click handler reads and writes: the grid, the
  guess history, the number of unlocked clues and the status; and the timers the handler
  has started that have not fired yet. The body of a timer is a closure of the render the
  click was made in: besides the clicked colour it holds that render's \<^verbatim>\<open>guesses\<close>, which is
  the history at the time of the click. The grid and the target position are the same in
  every render (\<^verbatim>\<open>colors\<close> has no setter), so they are read from the state.
\<close>

record Guess =
  color :: string
  isClose :: bool
  position :: Position

datatype GameStatus = Playing | Won | Lost

record Pending =
  clickedColor :: string
  seenGuesses :: "Guess list"

record Colordle =
  colors :: "string list"
  guesses :: "Guess list"
  currentClue :: int
  gameState :: GameStatus
  timers :: "Pending list"

definition targetColor :: string where
  "targetColor = ''#FFB3E0''"

definition targetPosition :: "Colordle \<Rightarrow> Position" where
  "targetPosition st = findColorPosition (colors st) targetColor"

text \<open>
  \<^verbatim>\<open>handleColorClick(color)\<close>. The handler returns at once unless the game is being played
  and fewer than three guesses exist; otherwise it starts a timer of 200 ms whose body
  records the guess. Nothing else happens in the call itself: history, clue counter and
  status are written by the body, when the timer fires. The animation flags
  (\<^verbatim>\<open>selectedColor\<close>, \<^verbatim>\<open>animateGuess\<close>, \<^verbatim>\<open>celebrating\<close>) are left out.
\<close>

definition handleColorClick :: "Colordle \<Rightarrow> string \<Rightarrow> Colordle" where
  "handleColorClick st clicked =
     (if gameState st \<noteq> Playing \<or> length (guesses st) \<ge> 3 then st
      else st\<lparr>timers := timers st @ [\<lparr>clickedColor = clicked, seenGuesses = guesses st\<rparr>]\<rparr>)"

text \<open>
  The body of a timer, run in the state \<open>st\<close> the page is in when the timer fires. The new
  history is built from the history the closure holds, \<^verbatim>\<open>[...guesses, newGuess]\<close>, and
  written with \<^verbatim>\<open>setGuesses\<close>; status and clue counter are written by their setters, and a
  variable whose setter is not called keeps the value it has in \<open>st\<close>.
\<close>

definition timerBody :: "Colordle \<Rightarrow> Pending \<Rightarrow> Colordle" where
  "timerBody st p =
     (let position = findColorPosition (colors st) (clickedColor p);
          isClose = isWithinProximity position (targetPosition st) 1;
          newGuess = \<lparr>color = clickedColor p, isClose = isClose, position = position\<rparr>;
          newGuesses = seenGuesses p @ [newGuess];
          st1 = st\<lparr>guesses := newGuesses\<rparr>
      in if toLowerCase (clickedColor p) = toLowerCase targetColor
         then st1\<lparr>gameState := Won\<rparr>
         else if length newGuesses \<ge> 3
         then st1\<lparr>currentClue := 3, gameState := Lost\<rparr>
         else st1\<lparr>currentClue := int (length newGuesses) + 1\<rparr>)"

text \<open>
  The timers all have the same delay, so they fire in the order they were started.
  \<open>fireTimer\<close> is the next timer firing; with no timer pending nothing happens.
\<close>

definition fireTimer :: "Colordle \<Rightarrow> Colordle" where
  "fireTimer st =
     (case timers st of
        [] \<Rightarrow> st
      | p # rest \<Rightarrow> timerBody (st\<lparr>timers := rest\<rparr>) p)"

text \<open>
  The invariant of the nearest-colour loop after the prefix \<open>pre\<close> of the grid: either
  nothing has been seen, or \<open>closestIndex\<close> is the first index of the least distance.
\<close>

definition closestInv :: "rgb \<Rightarrow> string list \<Rightarrow> nat \<times> real option \<Rightarrow> bool" where
  "closestInv t pre st =
     (case snd st of
        None \<Rightarrow> pre = []
      | Some m \<Rightarrow>
          fst st < length pre \<and> m = distance (hexToRgb (pre ! fst st)) t \<and>
          (\<forall>j < length pre. m \<le> distance (hexToRgb (pre ! j)) t) \<and>
          (\<forall>j < fst st. m < distance (hexToRgb (pre ! j)) t))"

section \<open>Properties\<close>

subsection \<open>Evaluating double arithmetic\<close>

text \<open>
  The exponent function meets its specification, so \<open>fl\<close> rounds at the unit in the last
  place of its argument. The remaining lemmas of this subsection let the simplifier
  evaluate \<open>fl\<close> on literals.
\<close>

lemma pow2_powi: "pow2 k = 2 powi k"
  by (simp add: pow2_def power_int_def inverse_eq_divide power_one_over)

lemma pow2_pos: "0 < pow2 k"
  by (simp add: pow2_powi zero_less_power_int)

lemma pow2_add: "pow2 (j + k) = pow2 j * pow2 k"
  by (simp add: pow2_powi power_int_add)

lemma pow2_mono: "j \<le> k \<Longrightarrow> pow2 j \<le> pow2 k"
  by (simp add: pow2_powi power_int_increasing)

lemma pow2_Suc: "pow2 (k + 1) = 2 * pow2 k"
proof -
  have "pow2 1 = 2" by (simp add: pow2_def)
  then show ?thesis using pow2_add [of k 1] by simp
qed

lemma pow2_pred: "pow2 (k - 1) = pow2 k / 2"
  using pow2_Suc [of "k - 1"] by simp

lemma pow2_diff: "pow2 (j - k) = pow2 j / pow2 k"
  by (simp add: pow2_powi power_int_diff)

lemma pow2_bitlen:
  assumes "0 < a"
  shows "pow2 (bitlen a - 1) \<le> rat_of_int a" and "rat_of_int a < pow2 (bitlen a)"
proof -
  have la: "1 \<le> bitlen a"
    using assms by (simp add: bitlen_alt_def)
  from bitlen_bounds [OF assms]
  have a1: "2 ^ nat (bitlen a - 1) \<le> a" and a2: "a < 2 ^ nat (bitlen a)"
    by simp_all
  have "rat_of_int (2 ^ nat (bitlen a - 1)) \<le> rat_of_int a"
    using a1 by (simp only: of_int_le_iff)
  moreover have "pow2 (bitlen a - 1) = 2 ^ nat (bitlen a - 1)"
    using la by (simp add: pow2_def)
  ultimately show "pow2 (bitlen a - 1) \<le> rat_of_int a" by simp
  have "rat_of_int a < rat_of_int (2 ^ nat (bitlen a))"
    using a2 by (simp only: of_int_less_iff)
  moreover have "pow2 (bitlen a) = 2 ^ nat (bitlen a)"
    using la by (simp add: pow2_def)
  ultimately show "rat_of_int a < pow2 (bitlen a)" by simp
qed

lemma expo_window:
  assumes "0 < a" "0 < b"
  shows "pow2 (bitlen a - bitlen b - 1) \<le> rat_of_int a / rat_of_int b"
    and "rat_of_int a / rat_of_int b < pow2 (bitlen a - bitlen b + 1)"
proof -
  note A = pow2_bitlen [OF assms(1)] and B = pow2_bitlen [OF assms(2)]
  have bpos: "0 < rat_of_int b" and apos: "0 < rat_of_int a"
    using assms by simp_all
  have "pow2 (bitlen a - bitlen b - 1) = pow2 (bitlen a - 1) / pow2 (bitlen b)"
    using pow2_diff [of "bitlen a - 1" "bitlen b"] by (simp add: algebra_simps)
  also have "\<dots> \<le> rat_of_int a / pow2 (bitlen b)"
    using A(1) pow2_pos [of "bitlen b"] by (simp add: divide_right_mono)
  also have "\<dots> \<le> rat_of_int a / rat_of_int b"
    using B(2) bpos apos by (simp add: frac_le)
  finally show "pow2 (bitlen a - bitlen b - 1) \<le> rat_of_int a / rat_of_int b" .
  have "rat_of_int a / rat_of_int b \<le> rat_of_int a / pow2 (bitlen b - 1)"
    using B(1) pow2_pos [of "bitlen b - 1"] apos by (simp add: frac_le)
  also have "\<dots> < pow2 (bitlen a) / pow2 (bitlen b - 1)"
    using A(2) pow2_pos [of "bitlen b - 1"] by (simp add: divide_strict_right_mono)
  also have "\<dots> = pow2 (bitlen a - bitlen b + 1)"
    using pow2_diff [of "bitlen a" "bitlen b - 1"] by (simp add: algebra_simps)
  finally show "rat_of_int a / rat_of_int b < pow2 (bitlen a - bitlen b + 1)" .
qed

lemma expo_bounds:
  assumes "q \<noteq> 0"
  shows "pow2 (expo q) \<le> abs q \<and> abs q < pow2 (expo q + 1)"
proof -
  obtain a b where ab: "quotient_of (abs q) = (a, b)"
    by (cases "quotient_of (abs q)")
  have b: "0 < b" using ab by (rule quotient_of_denom_pos)
  have q: "abs q = rat_of_int a / rat_of_int b" using ab by (rule quotient_of_div)
  have "0 < abs q" using assms by simp
  then have a: "0 < a" using b q by (simp add: zero_less_divide_iff)
  let ?k = "bitlen a - bitlen b"
  from expo_window [OF a b]
  have w1: "pow2 (?k - 1) \<le> abs q" and w2: "abs q < pow2 (?k + 1)"
    by (simp_all add: q)
  show ?thesis
  proof (cases "pow2 ?k \<le> abs q")
    case True
    then have "expo q = ?k" by (simp add: expo_def ab)
    then show ?thesis using True w2 by simp
  next
    case False
    then have "expo q = ?k - 1" by (simp add: expo_def ab)
    then show ?thesis using False w1 by simp
  qed
qed

lemma expo_unique:
  assumes "pow2 e \<le> abs q" "abs q < pow2 (e + 1)"
  shows "expo q = e"
proof -
  have "q \<noteq> 0" using assms(1) pow2_pos [of e] by auto
  from expo_bounds [OF this]
  have b1: "pow2 (expo q) \<le> abs q" and b2: "abs q < pow2 (expo q + 1)"
    by simp_all
  have "\<not> expo q < e"
  proof
    assume "expo q < e"
    then have "pow2 (expo q + 1) \<le> pow2 e" by (simp add: pow2_mono)
    then show False using b2 assms(1) by simp
  qed
  moreover have "\<not> e < expo q"
  proof
    assume "e < expo q"
    then have "pow2 (e + 1) \<le> pow2 (expo q)" by (simp add: pow2_mono)
    then show False using b1 assms(2) by simp
  qed
  ultimately show ?thesis by simp
qed

lemma expo_unit: "1 \<le> abs q \<Longrightarrow> abs q < 2 \<Longrightarrow> expo q = 0"
  by (rule expo_unique) (simp_all add: pow2_def)

lemma expo_halve: "2 \<le> abs q \<Longrightarrow> expo q = expo (q / 2) + 1"
proof -
  assume "2 \<le> abs q"
  then have nz: "q / 2 \<noteq> 0" by auto
  define e where "e = expo (q / 2)"
  from expo_bounds [OF nz] have "pow2 e \<le> abs q / 2" and "abs q / 2 < pow2 (e + 1)"
    by (simp_all add: e_def)
  then have "2 * pow2 e \<le> abs q" and "abs q < 2 * pow2 (e + 1)" by simp_all
  then have "pow2 (e + 1) \<le> abs q" and "abs q < pow2 (e + 1 + 1)"
    by (simp_all only: pow2_Suc)
  then have "expo q = e + 1" by (rule expo_unique)
  then show ?thesis by (simp add: e_def)
qed

lemma expo_double: "q \<noteq> 0 \<Longrightarrow> abs q < 1 \<Longrightarrow> expo q = expo (q * 2) - 1"
proof -
  assume "q \<noteq> 0" "abs q < 1"
  then have nz: "q * 2 \<noteq> 0" by auto
  define e where "e = expo (q * 2)"
  from expo_bounds [OF nz] have "pow2 e \<le> abs q * 2" and "abs q * 2 < pow2 (e + 1)"
    by (simp_all add: e_def abs_mult)
  then have "pow2 e / 2 \<le> abs q" and "abs q < pow2 e"
    by (simp_all add: pow2_Suc)
  then have "pow2 (e - 1) \<le> abs q" and "abs q < pow2 (e - 1 + 1)"
    by (simp_all add: pow2_pred)
  then have "expo q = e - 1" by (rule expo_unique)
  then show ?thesis by (simp add: e_def)
qed

lemma floor_rat_divide_numeral:
  "\<lfloor>numeral a / numeral b :: rat\<rfloor> = numeral a div numeral b"
  by (metis floor_divide_of_int_eq of_int_numeral)

lemma floor_rat_minus_divide_numeral:
  "\<lfloor>- (numeral a / numeral b) :: rat\<rfloor> = - numeral a div numeral b"
  by (metis divide_minus_left floor_divide_of_int_eq of_int_neg_numeral of_int_numeral)

lemma floor_rat_one_divide_numeral:
  "\<lfloor>1 / numeral b :: rat\<rfloor> = 1 div numeral b"
  by (metis floor_divide_of_int_eq of_int_1 of_int_numeral)

lemma floor_rat_minus_one_divide_numeral:
  "\<lfloor>- (1 / numeral b) :: rat\<rfloor> = - 1 div numeral b"
  by (metis (mono_tags, opaque_lifting) div_minus_right minus_divide_right
      floor_divide_of_int_eq of_int_neg_numeral of_int_1)

lemma fl_0: "fl 0 = 0"
  by (simp add: fl_def)

lemma fl_numeral: "fl (numeral a) = roundAt (max (expo (numeral a)) (- 1022) - 52) (numeral a)"
  by (simp add: fl_def)

lemma fl_1: "fl 1 = roundAt (max (expo 1) (- 1022) - 52) 1"
  by (simp add: fl_def)

lemma fl_frac: "fl (numeral a / numeral b) =
    roundAt (max (expo (numeral a / numeral b)) (- 1022) - 52) (numeral a / numeral b)"
  by (simp add: fl_def)

lemma fl_inv: "fl (1 / numeral b) =
    roundAt (max (expo (1 / numeral b)) (- 1022) - 52) (1 / numeral b)"
  by (simp add: fl_def)

lemma fl_neg_numeral:
  "fl (- numeral a) = roundAt (max (expo (numeral a)) (- 1022) - 52) (- numeral a)"
  by (simp add: fl_def expo_def)

lemma fl_neg_1: "fl (- 1) = roundAt (max (expo 1) (- 1022) - 52) (- 1)"
  by (simp add: fl_def expo_def)

lemma fl_neg_frac: "fl (- (numeral a / numeral b)) =
    roundAt (max (expo (numeral a / numeral b)) (- 1022) - 52) (- (numeral a / numeral b))"
  by (simp add: fl_def expo_def)

lemma fl_neg_inv: "fl (- (1 / numeral b)) =
    roundAt (max (expo (1 / numeral b)) (- 1022) - 52) (- (1 / numeral b))"
  by (simp add: fl_def expo_def)

lemma toHex_numeral:
  "toHex (numeral n) = (if (numeral n :: nat) < 16 then [hexDigit (numeral n)]
     else toHex (numeral n div 16) @ [hexDigit (numeral n mod 16)])"
  by (rule toHex.simps)

lemma toHex_0: "toHex 0 = [hexDigit 0]"
  by (simp add: toHex.simps)

lemma toHex_1: "toHex (Suc 0) = [hexDigit (Suc 0)]"
  by (subst toHex.simps) simp

lemmas number_eval = fl_0 fl_numeral fl_1 fl_frac fl_inv fl_neg_numeral fl_neg_1 fl_neg_frac
  fl_neg_inv expo_unit expo_halve expo_double pow2_def roundAt_def roundTiesToEven_def
  fadd_def fsub_def fmul_def fdiv_def fmod_def trunc_def Math_round_def Let_def
  floor_rat_divide_numeral floor_rat_minus_divide_numeral
  floor_rat_one_divide_numeral floor_rat_minus_one_divide_numeral

lemma upperChar_hex:
  "upperChar CHR ''#'' = CHR ''#''" "upperChar CHR ''-'' = CHR ''-''"
  "upperChar CHR ''0'' = CHR ''0''" "upperChar CHR ''1'' = CHR ''1''"
  "upperChar CHR ''2'' = CHR ''2''" "upperChar CHR ''3'' = CHR ''3''"
  "upperChar CHR ''4'' = CHR ''4''" "upperChar CHR ''5'' = CHR ''5''"
  "upperChar CHR ''6'' = CHR ''6''" "upperChar CHR ''7'' = CHR ''7''"
  "upperChar CHR ''8'' = CHR ''8''" "upperChar CHR ''9'' = CHR ''9''"
  "upperChar CHR ''a'' = CHR ''A''" "upperChar CHR ''b'' = CHR ''B''"
  "upperChar CHR ''c'' = CHR ''C''" "upperChar CHR ''d'' = CHR ''D''"
  "upperChar CHR ''e'' = CHR ''E''" "upperChar CHR ''f'' = CHR ''F''"
  by (simp_all add: upperChar_def)

lemmas hex_eval = channelHex_def padStart_def toString16_def hexDigit_def
  toHex_numeral toHex_0 toHex_1 toUpperCase_def upperChar_hex

text \<open>
  \<open>fl\<close> returns a multiple of the unit in the last place at a distance of at most half a
  unit from its argument; three familiar doubles as a check of the model.
\<close>

lemma roundTiesToEven_near: "abs (of_int (roundTiesToEven x) - x) \<le> 1 / 2"
proof -
  define d where "d = x - of_int \<lfloor>x\<rfloor>"
  have d: "0 \<le> d" "d < 1"
    unfolding d_def by linarith+
  have x: "x = of_int \<lfloor>x\<rfloor> + d"
    by (simp add: d_def)
  consider "d < 1 / 2" | "1 / 2 < d" | "d = 1 / 2" by linarith
  then show ?thesis
  proof cases
    case 1
    then have "roundTiesToEven x = \<lfloor>x\<rfloor>"
      by (simp add: roundTiesToEven_def Let_def d_def)
    then have "of_int (roundTiesToEven x) - x = - d"
      by (simp add: d_def)
    with 1 d show ?thesis by linarith
  next
    case 2
    then have "roundTiesToEven x = \<lfloor>x\<rfloor> + 1"
      by (simp add: roundTiesToEven_def Let_def d_def)
    then have "of_int (roundTiesToEven x) - x = 1 - d"
      by (simp add: d_def)
    with 2 d show ?thesis by linarith
  next
    case 3
    then have "roundTiesToEven x = \<lfloor>x\<rfloor> \<or> roundTiesToEven x = \<lfloor>x\<rfloor> + 1"
      by (simp add: roundTiesToEven_def Let_def d_def)
    then have "of_int (roundTiesToEven x) - x = - d \<or> of_int (roundTiesToEven x) - x = 1 - d"
      by (auto simp: d_def)
    with 3 show ?thesis by (auto simp: abs_if)
  qed
qed

lemma roundAt_near: "abs (roundAt k q - q) \<le> pow2 k / 2"
proof -
  let ?n = "rat_of_int (roundTiesToEven (q / pow2 k))"
  have u: "0 < pow2 k" by (rule pow2_pos)
  have "roundAt k q - q = (?n - q / pow2 k) * pow2 k"
    using u by (simp add: roundAt_def field_simps)
  then have "abs (roundAt k q - q) = abs (?n - q / pow2 k) * pow2 k"
    using u by (simp add: abs_mult)
  also have "\<dots> \<le> 1 / 2 * pow2 k"
    using roundTiesToEven_near [of "q / pow2 k"] u by (intro mult_right_mono) simp_all
  finally show ?thesis by simp
qed

lemma fl_near:
  assumes "- 1022 \<le> expo q"
  shows "abs (fl q - q) \<le> pow2 (expo q - 53)"
proof (cases "q = 0")
  case True
  then show ?thesis using pow2_pos [of "expo q - 53"] by (simp add: fl_def)
next
  case False
  have "pow2 (expo q - 53) = pow2 (expo q - 52) / 2"
    using pow2_pred [of "expo q - 52"] by simp
  with roundAt_near [of "expo q - 52" q] assms False show ?thesis
    by (simp add: fl_def max_def)
qed

lemma fl_known:
  "fl (1 / 10) = 3602879701896397 / 36028797018963968"
  "fadd (fl (1 / 10)) (fl (2 / 10)) = 1351079888211149 / 4503599627370496"
  "fsub (fl (19 / 10)) 1 = 2026619832316723 / 2251799813685248"
  by (simp_all add: number_eval cong: let_weak_cong)

text \<open>
  \<open>Math_sqrt\<close> is strictly increasing on the integers from 0 to \<open>3 \<times> 255\<^sup>2 = 195075\<close>:
  the roots of two of them differ by more than \<open>2\<^sup>-\<^sup>1\<^sup>0\<close>, the rounding moves a root by at
  most \<open>2\<^sup>-\<^sup>4\<^sup>5\<close>.
\<close>

lemma Math_sqrt_0: "Math_sqrt 0 = 0"
  by (simp add: Math_sqrt_def)

lemma Math_sqrt_near:
  assumes "0 < x"
  shows "abs (Math_sqrt x - sqrt (of_rat x)) \<le> 2 powi (\<lfloor>log 2 (sqrt (of_rat x))\<rfloor> - 53)"
proof -
  define y where "y = sqrt (of_rat x)"
  define u :: real where "u = 2 powi (\<lfloor>log 2 y\<rfloor> - 52)"
  have y: "y \<noteq> 0" using assms by (simp add: y_def)
  have u: "0 < u" by (simp add: u_def zero_less_power_int)
  have m: "Math_sqrt x = of_int (roundTiesToEven (y / u)) * u"
    using y by (simp add: Math_sqrt_def Let_def y_def u_def)
  have "Math_sqrt x - y = (of_int (roundTiesToEven (y / u)) - y / u) * u"
    using u by (simp add: m field_simps)
  then have "abs (Math_sqrt x - y) = abs (of_int (roundTiesToEven (y / u)) - y / u) * u"
    using u by (simp add: abs_mult)
  also have "\<dots> \<le> 1 / 2 * u"
    using roundTiesToEven_near [of "y / u"] u by (intro mult_right_mono) simp_all
  also have "\<dots> = 2 powi (\<lfloor>log 2 y\<rfloor> - 53)"
    using power_int_diff [of "2 :: real" "\<lfloor>log 2 y\<rfloor> - 52" 1] by (simp add: u_def)
  finally show ?thesis by (simp add: y_def)
qed

lemma sqrt_small:
  fixes x :: real
  assumes "1 \<le> x" "x \<le> 195075"
  shows "1 \<le> sqrt x" "sqrt x < 512"
proof -
  show "1 \<le> sqrt x" using assms(1) by simp
  have "sqrt x < sqrt (512\<^sup>2)"
    using assms(2) by (simp only: real_sqrt_less_iff) simp
  then show "sqrt x < 512" by simp
qed

lemma Math_sqrt_small:
  assumes "1 \<le> a" "a \<le> 195075"
  shows "abs (Math_sqrt (of_int a) - sqrt (real_of_int a)) \<le> 2 powi (- 45)"
proof -
  have x: "1 \<le> real_of_int a" "real_of_int a \<le> 195075"
    using assms by simp_all
  note s = sqrt_small [OF x]
  have "log 2 (sqrt (real_of_int a)) < 9"
  proof -
    have "log 2 (sqrt (real_of_int a)) < log 2 512"
      using s by simp
    moreover have "log 2 512 = 9"
      using log_pow_cancel [of 2 9] by simp
    ultimately show ?thesis by simp
  qed
  then have "\<lfloor>log 2 (sqrt (real_of_int a))\<rfloor> \<le> 8"
    by linarith
  then have "(2 :: real) powi (\<lfloor>log 2 (sqrt (real_of_int a))\<rfloor> - 53) \<le> 2 powi (- 45)"
    by (intro power_int_increasing) simp_all
  moreover have "0 < rat_of_int a" using assms(1) by simp
  ultimately show ?thesis
    using Math_sqrt_near [of "rat_of_int a"] by simp
qed

lemma sqrt_gap:
  fixes a b :: real
  assumes "0 \<le> a" "a + 1 \<le> b" "b \<le> 195075"
  shows "1 / 1024 < sqrt b - sqrt a"
proof -
  have b1: "1 \<le> b" using assms by simp
  have sb: "sqrt b < 512" using sqrt_small(2) [OF b1 assms(3)] .
  have sa: "sqrt a \<le> sqrt b" using assms by simp
  have sa0: "0 \<le> sqrt a" using assms(1) by simp
  have sb0: "1 \<le> sqrt b" using b1 by simp
  have prod: "(sqrt b - sqrt a) * (sqrt b + sqrt a) = b - a"
    using assms by (simp add: algebra_simps)
  have sum: "0 < sqrt b + sqrt a" "sqrt b + sqrt a < 1024"
    using sa sa0 sb sb0 by linarith+
  have "1 \<le> (sqrt b - sqrt a) * (sqrt b + sqrt a)"
    using prod assms(2) by simp
  then have "1 / (sqrt b + sqrt a) \<le> sqrt b - sqrt a"
    using sum(1) by (simp add: field_simps)
  moreover have "1 / 1024 < 1 / (sqrt b + sqrt a)"
    using sum by (simp add: field_simps)
  ultimately show ?thesis by linarith
qed

lemma Math_sqrt_strict_mono:
  assumes "0 \<le> a" "a < b" "b \<le> 195075"
  shows "Math_sqrt (of_int a) < Math_sqrt (of_int b)"
proof -
  have tiny: "(2 :: real) powi (- 45) < 1 / 4096"
    by (simp add: power_int_minus field_simps)
  have b: "1 \<le> b" "b \<le> 195075"
    using assms by simp_all
  from Math_sqrt_small [OF b]
  have lb: "sqrt (real_of_int b) - 2 powi (- 45) \<le> Math_sqrt (of_int b)"
    by linarith
  show ?thesis
  proof (cases "a = 0")
    case True
    have "1 \<le> sqrt (real_of_int b)" using b(1) by simp
    with lb tiny have "0 < Math_sqrt (of_int b)" by linarith
    with True show ?thesis by (simp add: Math_sqrt_0)
  next
    case False
    with assms have a: "1 \<le> a" "a \<le> 195075"
      by simp_all
    from Math_sqrt_small [OF a]
    have ua: "Math_sqrt (of_int a) \<le> sqrt (real_of_int a) + 2 powi (- 45)"
      by linarith
    have "1 / 1024 < sqrt (real_of_int b) - sqrt (real_of_int a)"
      using assms by (intro sqrt_gap) simp_all
    with ua lb tiny show ?thesis by linarith
  qed
qed

lemma Math_sqrt_less_iff:
  assumes "0 \<le> a" "a \<le> 195075" "0 \<le> b" "b \<le> 195075"
  shows "Math_sqrt (of_int a) < Math_sqrt (of_int b) \<longleftrightarrow> a < b"
proof
  assume "a < b"
  with assms show "Math_sqrt (of_int a) < Math_sqrt (of_int b)"
    by (intro Math_sqrt_strict_mono)
next
  assume lt: "Math_sqrt (of_int a) < Math_sqrt (of_int b)"
  show "a < b"
  proof (rule ccontr)
    assume "\<not> a < b"
    then consider "a = b" | "b < a" by linarith
    then show False
    proof cases
      case 1
      with lt show False by simp
    next
      case 2
      with assms have "Math_sqrt (of_int b) < Math_sqrt (of_int a)"
        by (intro Math_sqrt_strict_mono)
      with lt show False by simp
    qed
  qed
qed

subsection \<open>The generated grid\<close>

lemma cellColor_staged: "cellColor cols i j = mixColor (rowParams i) (colParams cols j)"
  by (simp add: cellColor_def hslToHex_def rowParams_def colParams_def paint_def Let_def)

lemma rowParams_values:
  "rowParams 0 = (225179981368525 / 2251799813685248, 2026619832316723 / 2251799813685248, ''ff'', ''e5'')"
  "rowParams (Suc 0) = (1351079888211149 / 4503599627370496, 3152519739159347 / 4503599627370496, ''ff'', ''b3'')"
  "rowParams 2 = (1 / 2, 1 / 2, ''ff'', ''80'')"
  "rowParams 3 = (3152519739159347 / 4503599627370496, 1351079888211149 / 4503599627370496, ''ff'', ''4d'')"
  "rowParams 4 = (3602879701896397 / 4503599627370496, 900719925474099 / 4503599627370496, ''ff'', ''33'')"
  "rowParams 5 = (990791918021509 / 1125899906842624, 135107988821115 / 1125899906842624, ''ff'', ''1f'')"
  "rowParams 6 = (1080863910568919 / 1125899906842624, 45035996273705 / 1125899906842624, ''ff'', ''0a'')"
  "rowParams 7 = (1080863910568919 / 1125899906842624, 0, ''f5'', ''00'')"
  "rowParams 8 = (7926335344172073 / 9007199254740992, 0, ''e0'', ''00'')"
  "rowParams 9 = (3602879701896397 / 4503599627370496, 0, ''cc'', ''00'')"
  "rowParams 10 = (3242591731706757 / 4503599627370496, 0, ''b8'', ''00'')"
  "rowParams 11 = (5764607523034235 / 9007199254740992, 0, ''a3'', ''00'')"
  "rowParams 12 = (1261007895663739 / 2251799813685248, 0, ''8f'', ''00'')"
  "rowParams 13 = (1080863910568919 / 2251799813685248, 0, ''7a'', ''00'')"
  "rowParams 14 = (3602879701896397 / 9007199254740992, 0, ''66'', ''00'')"
  "rowParams 15 = (1441151880758559 / 4503599627370496, - (1 / 36028797018963968), ''52'', ''00'')"
  by (simp_all add: rowParams_def number_eval hex_eval cong: let_weak_cong)

lemma colParams_values:
  "colParams 20 0 = (0, 0)"
  "colParams 20 (Suc 0) = (18, 1351079888211149 / 4503599627370496)"
  "colParams 20 2 = (36, 5404319552844595 / 9007199254740992)"
  "colParams 20 3 = (54, 8106479329266893 / 9007199254740992)"
  "colParams 20 4 = (72, 3602879701896397 / 4503599627370496)"
  "colParams 20 5 = (90, 1 / 2)"
  "colParams 20 6 = (108, 900719925474099 / 4503599627370496)"
  "colParams 20 7 = (8866461766385663 / 70368744177664, 56294995342131 / 562949953421312)"
  "colParams 20 8 = (144, 900719925474099 / 2251799813685248)"
  "colParams 20 9 = (162, 788129934789837 / 1125899906842624)"
  "colParams 20 10 = (180, 1)"
  "colParams 20 11 = (6966505673588737 / 35184372088832, 1576259869579673 / 2251799813685248)"
  "colParams 20 12 = (216, 900719925474099 / 2251799813685248)"
  "colParams 20 13 = (234, 225179981368525 / 2251799813685248)"
  "colParams 20 14 = (8866461766385663 / 35184372088832, 56294995342131 / 281474976710656)"
  "colParams 20 15 = (270, 1 / 2)"
  "colParams 20 16 = (288, 900719925474099 / 1125899906842624)"
  "colParams 20 17 = (306, 506654958079181 / 562949953421312)"
  "colParams 20 18 = (324, 337769972052787 / 562949953421312)"
  "colParams 20 19 = (342, 337769972052787 / 1125899906842624)"
  by (simp_all add: colParams_def number_eval cong: let_weak_cong)

lemma grid_row_0:
  "map (cellColor 20 0) [0, 1, 2, 3, 4, 5, 6, 7, 8, 9, 10, 11, 12, 13, 14, 15, 16, 17, 18, 19] =
     [''#FFE5E5'', ''#FFEDE5'', ''#FFF5E5'', ''#FFFCE5'', ''#FAFFE5'', ''#F2FFE5'', ''#EBFFE5'',
      ''#E5FFE8'', ''#E5FFF0'', ''#E5FFF7'', ''#E5FFFF'', ''#E5F7FF'', ''#E5F0FF'', ''#E5E8FF'',
      ''#EBE5FF'', ''#F2E5FF'', ''#FAE5FF'', ''#FFE5FC'', ''#FFE5F5'', ''#FFE5ED'']"
  by (simp add: cellColor_staged rowParams_values colParams_values paint_def number_eval hex_eval
      cong: let_weak_cong)

lemma grid_row_1:
  "map (cellColor 20 1) [0, 1, 2, 3, 4, 5, 6, 7, 8, 9, 10, 11, 12, 13, 14, 15, 16, 17, 18, 19] =
     [''#FFB3B3'', ''#FFC9B3'', ''#FFE0B3'', ''#FFF7B3'', ''#F0FFB3'', ''#D9FFB3'', ''#C2FFB3'',
      ''#B3FFBA'', ''#B3FFD1'', ''#B3FFE8'', ''#B3FFFF'', ''#B3E8FF'', ''#B3D1FF'', ''#B3BAFF'',
      ''#C2B3FF'', ''#D9B3FF'', ''#F0B3FF'', ''#FFB3F7'', ''#FFB3E0'', ''#FFB3C9'']"
  by (simp add: cellColor_staged rowParams_values colParams_values paint_def number_eval hex_eval
      cong: let_weak_cong)

lemma grid_row_2:
  "map (cellColor 20 2) [0, 1, 2, 3, 4, 5, 6, 7, 8, 9, 10, 11, 12, 13, 14, 15, 16, 17, 18, 19] =
     [''#FF8080'', ''#FFA680'', ''#FFCC80'', ''#FFF280'', ''#E6FF80'', ''#BFFF80'', ''#99FF80'',
      ''#80FF8C'', ''#80FFB3'', ''#80FFD9'', ''#80FFFF'', ''#80D9FF'', ''#80B3FF'', ''#808CFF'',
      ''#9980FF'', ''#BF80FF'', ''#E580FF'', ''#FF80F2'', ''#FF80CC'', ''#FF80A6'']"
  by (simp add: cellColor_staged rowParams_values colParams_values paint_def number_eval hex_eval
      cong: let_weak_cong)

lemma grid_row_3:
  "map (cellColor 20 3) [0, 1, 2, 3, 4, 5, 6, 7, 8, 9, 10, 11, 12, 13, 14, 15, 16, 17, 18, 19] =
     [''#FF4D4D'', ''#FF824D'', ''#FFB84D'', ''#FFED4D'', ''#DBFF4D'', ''#A6FF4D'', ''#70FF4D'',
      ''#4DFF5E'', ''#4DFF94'', ''#4DFFC9'', ''#4DFFFF'', ''#4DC9FF'', ''#4D94FF'', ''#4D5EFF'',
      ''#704DFF'', ''#A64DFF'', ''#DB4DFF'', ''#FF4DED'', ''#FF4DB8'', ''#FF4D82'']"
  by (simp add: cellColor_staged rowParams_values colParams_values paint_def number_eval hex_eval
      cong: let_weak_cong)

lemma grid_row_4:
  "map (cellColor 20 4) [0, 1, 2, 3, 4, 5, 6, 7, 8, 9, 10, 11, 12, 13, 14, 15, 16, 17, 18, 19] =
     [''#FF3333'', ''#FF7033'', ''#FFAD33'', ''#FFEB33'', ''#D6FF33'', ''#99FF33'', ''#5CFF33'',
      ''#33FF47'', ''#33FF85'', ''#33FFC2'', ''#33FFFF'', ''#33C2FF'', ''#3385FF'', ''#3347FF'',
      ''#5C33FF'', ''#9933FF'', ''#D633FF'', ''#FF33EB'', ''#FF33AD'', ''#FF3370'']"
  by (simp add: cellColor_staged rowParams_values colParams_values paint_def number_eval hex_eval
      cong: let_weak_cong)

lemma grid_row_5:
  "map (cellColor 20 5) [0, 1, 2, 3, 4, 5, 6, 7, 8, 9, 10, 11, 12, 13, 14, 15, 16, 17, 18, 19] =
     [''#FF1F1F'', ''#FF621F'', ''#FFA51F'', ''#FFE91F'', ''#D2FF1F'', ''#8FFF1F'', ''#4BFF1F'',
      ''#1FFF35'', ''#1FFF78'', ''#1FFFBC'', ''#1FFFFF'', ''#1FBCFF'', ''#1F78FF'', ''#1F35FF'',
      ''#4B1FFF'', ''#8F1FFF'', ''#D21FFF'', ''#FF1FE9'', ''#FF1FA5'', ''#FF1F62'']"
  by (simp add: cellColor_staged rowParams_values colParams_values paint_def number_eval hex_eval
      cong: let_weak_cong)

lemma grid_row_6:
  "map (cellColor 20 6) [0, 1, 2, 3, 4, 5, 6, 7, 8, 9, 10, 11, 12, 13, 14, 15, 16, 17, 18, 19] =
     [''#FF0A0A'', ''#FF540A'', ''#FF9D0A'', ''#FFE70A'', ''#CEFF0A'', ''#85FF0A'', ''#3BFF0A'',
      ''#0AFF23'', ''#0AFF6C'', ''#0AFFB6'', ''#0AFFFF'', ''#0AB6FF'', ''#0A6CFF'', ''#0A23FF'',
      ''#3B0AFF'', ''#850AFF'', ''#CE0AFF'', ''#FF0AE7'', ''#FF0A9D'', ''#FF0A54'']"
  by (simp add: cellColor_staged rowParams_values colParams_values paint_def number_eval hex_eval
      cong: let_weak_cong)

lemma grid_row_7:
  "map (cellColor 20 7) [0, 1, 2, 3, 4, 5, 6, 7, 8, 9, 10, 11, 12, 13, 14, 15, 16, 17, 18, 19] =
     [''#F50000'', ''#F54900'', ''#F59300'', ''#F5DC00'', ''#C4F500'', ''#7AF500'', ''#31F500'',
      ''#00F518'', ''#00F562'', ''#00F5AB'', ''#00F5F5'', ''#00ABF5'', ''#0062F5'', ''#0018F5'',
      ''#3100F5'', ''#7A00F5'', ''#C400F5'', ''#F500DC'', ''#F50093'', ''#F50049'']"
  by (simp add: cellColor_staged rowParams_values colParams_values paint_def number_eval hex_eval
      cong: let_weak_cong)

lemma grid_row_8:
  "map (cellColor 20 8) [0, 1, 2, 3, 4, 5, 6, 7, 8, 9, 10, 11, 12, 13, 14, 15, 16, 17, 18, 19] =
     [''#E00000'', ''#E04300'', ''#E08700'', ''#E0CA00'', ''#B4E000'', ''#70E000'', ''#2DE000'',
      ''#00E016'', ''#00E05A'', ''#00E09D'', ''#00E0E0'', ''#009DE0'', ''#005AE0'', ''#0016E0'',
      ''#2D00E0'', ''#7000E0'', ''#B400E0'', ''#E000CA'', ''#E00087'', ''#E00043'']"
  by (simp add: cellColor_staged rowParams_values colParams_values paint_def number_eval hex_eval
      cong: let_weak_cong)

lemma grid_row_9:
  "map (cellColor 20 9) [0, 1, 2, 3, 4, 5, 6, 7, 8, 9, 10, 11, 12, 13, 14, 15, 16, 17, 18, 19] =
     [''#CC0000'', ''#CC3D00'', ''#CC7A00'', ''#CCB800'', ''#A3CC00'', ''#66CC00'', ''#29CC00'',
      ''#00CC14'', ''#00CC52'', ''#00CC8F'', ''#00CCCC'', ''#008FCC'', ''#0052CC'', ''#0014CC'',
      ''#2900CC'', ''#6600CC'', ''#A300CC'', ''#CC00B8'', ''#CC007A'', ''#CC003D'']"
  by (simp add: cellColor_staged rowParams_values colParams_values paint_def number_eval hex_eval
      cong: let_weak_cong)

lemma grid_row_10:
  "map (cellColor 20 10) [0, 1, 2, 3, 4, 5, 6, 7, 8, 9, 10, 11, 12, 13, 14, 15, 16, 17, 18, 19] =
     [''#B80000'', ''#B83700'', ''#B86E00'', ''#B8A500'', ''#93B800'', ''#5CB800'', ''#25B800'',
      ''#00B812'', ''#00B849'', ''#00B881'', ''#00B8B8'', ''#0081B8'', ''#0049B8'', ''#0012B8'',
      ''#2500B8'', ''#5C00B8'', ''#9300B8'', ''#B800A5'', ''#B8006E'', ''#B80037'']"
  by (simp add: cellColor_staged rowParams_values colParams_values paint_def number_eval hex_eval
      cong: let_weak_cong)

lemma grid_row_11:
  "map (cellColor 20 11) [0, 1, 2, 3, 4, 5, 6, 7, 8, 9, 10, 11, 12, 13, 14, 15, 16, 17, 18, 19] =
     [''#A30000'', ''#A33100'', ''#A36200'', ''#A39300'', ''#83A300'', ''#52A300'', ''#21A300'',
      ''#00A310'', ''#00A341'', ''#00A372'', ''#00A3A3'', ''#0072A3'', ''#0041A3'', ''#0010A3'',
      ''#2100A3'', ''#5200A3'', ''#8300A3'', ''#A30093'', ''#A30062'', ''#A30031'']"
  by (simp add: cellColor_staged rowParams_values colParams_values paint_def number_eval hex_eval
      cong: let_weak_cong)

lemma grid_row_12:
  "map (cellColor 20 12) [0, 1, 2, 3, 4, 5, 6, 7, 8, 9, 10, 11, 12, 13, 14, 15, 16, 17, 18, 19] =
     [''#8F0000'', ''#8F2B00'', ''#8F5600'', ''#8F8100'', ''#728F00'', ''#478F00'', ''#1D8F00'',
      ''#008F0E'', ''#008F39'', ''#008F64'', ''#008F8F'', ''#00648F'', ''#00398F'', ''#000E8F'',
      ''#1D008F'', ''#47008F'', ''#72008F'', ''#8F0081'', ''#8F0056'', ''#8F002B'']"
  by (simp add: cellColor_staged rowParams_values colParams_values paint_def number_eval hex_eval
      cong: let_weak_cong)

lemma grid_row_13:
  "map (cellColor 20 13) [0, 1, 2, 3, 4, 5, 6, 7, 8, 9, 10, 11, 12, 13, 14, 15, 16, 17, 18, 19] =
     [''#7A0000'', ''#7A2500'', ''#7A4900'', ''#7A6E00'', ''#627A00'', ''#3D7A00'', ''#187A00'',
      ''#007A0C'', ''#007A31'', ''#007A56'', ''#007A7A'', ''#00567A'', ''#00317A'', ''#000C7A'',
      ''#18007A'', ''#3D007A'', ''#62007A'', ''#7A006E'', ''#7A0049'', ''#7A0025'']"
  by (simp add: cellColor_staged rowParams_values colParams_values paint_def number_eval hex_eval
      cong: let_weak_cong)

lemma grid_row_14:
  "map (cellColor 20 14) [0, 1, 2, 3, 4, 5, 6, 7, 8, 9, 10, 11, 12, 13, 14, 15, 16, 17, 18, 19] =
     [''#660000'', ''#661F00'', ''#663D00'', ''#665C00'', ''#526600'', ''#336600'', ''#146600'',
      ''#00660A'', ''#006629'', ''#006647'', ''#006666'', ''#004766'', ''#002966'', ''#000A66'',
      ''#140066'', ''#330066'', ''#520066'', ''#66005C'', ''#66003D'', ''#66001F'']"
  by (simp add: cellColor_staged rowParams_values colParams_values paint_def number_eval hex_eval
      cong: let_weak_cong)

lemma grid_row_15:
  "map (cellColor 20 15) [0, 1, 2, 3, 4, 5, 6, 7, 8, 9, 10, 11, 12, 13, 14, 15, 16, 17, 18, 19] =
     [''#520000'', ''#521800'', ''#523100'', ''#524900'', ''#415200'', ''#295200'', ''#105200'',
      ''#005208'', ''#005221'', ''#005239'', ''#005252'', ''#003952'', ''#002152'', ''#000852'',
      ''#100052'', ''#290052'', ''#410052'', ''#520049'', ''#520031'', ''#520018'']"
  by (simp add: cellColor_staged rowParams_values colParams_values paint_def number_eval hex_eval
      cong: let_weak_cong)


lemma fold_push: "fold (\<lambda>x acc. acc @ [f x]) xs acc = acc @ map f xs"
  by (induction xs arbitrary: acc) simp_all

lemma fold_push_rows: "fold (\<lambda>x acc. acc @ f x) xs acc = acc @ concat (map f xs)"
  by (induction xs arbitrary: acc) simp_all

lemma generateColorGrid_rows:
  "generateColorGrid = concat (map (\<lambda>i. map (cellColor 20 i) [0..<20]) [0..<16])"
  by (simp only: generateColorGrid_def Let_def fold_push fold_push_rows append_Nil)

lemma upt_20: "[0..<20] = [0, 1, 2, 3, 4, 5, 6, 7, 8, 9, 10, 11, 12, 13, 14, 15, 16, 17, 18, 19]"
  by code_simp

lemma upt_16: "[0..<16] = [0, 1, 2, 3, 4, 5, 6, 7, 8, 9, 10, 11, 12, 13, 14, 15]"
  by code_simp

lemmas grid_rows = grid_row_0 grid_row_1 grid_row_2 grid_row_3 grid_row_4 grid_row_5 grid_row_6
  grid_row_7 grid_row_8 grid_row_9 grid_row_10 grid_row_11 grid_row_12 grid_row_13 grid_row_14
  grid_row_15

lemma generateColorGrid_value: "generateColorGrid = gridColors"
  unfolding generateColorGrid_rows upt_16 list.map upt_20 [symmetric]
  by (simp only: upt_20 grid_rows gridColors_def concat.simps append.simps)

lemma lightness_exact:
  "\<forall>i \<in> set [0..<16].
     (if i < 4 then (100, fsub 95 (fmul (of_nat i) 10))
      else (100, fsub 60 (fmul (fsub (of_nat i) 4) 4))) = (100 :: number, specLightness i)"
  unfolding upt_16
  by (simp add: specLightness_def number_eval cong: let_weak_cong)

lemma cellColor_spec:
  assumes "i < 16"
  shows "cellColor 20 i j = hslToHex (specHue j) 100 (specLightness i)"
proof -
  from assms have "i \<in> set [0..<16]" by simp
  with lightness_exact
  have "(if i < 4 then (100, fsub 95 (fmul (of_nat i) 10))
         else (100, fsub 60 (fmul (fsub (of_nat i) 4) 4))) = (100 :: number, specLightness i)"
    by blast
  then show ?thesis
    by (simp add: cellColor_def specHue_def Let_def)
qed

lemma generateColorGrid_scheme:
  "generateColorGrid =
     concat (map (\<lambda>i. map (\<lambda>j. hslToHex (specHue j) 100 (specLightness i)) [0..<20]) [0..<16])"
  unfolding generateColorGrid_rows
  by (rule arg_cong [where f = concat], rule map_cong) (simp_all add: cellColor_spec)

text \<open>
  Claim C5. \<open>generateColorGrid\<close> takes no input and is a constant: it is the sequence
  \<open>gridColors\<close> of exactly \<open>16 \<times> 20 = 320\<close> colours, each of them \<^verbatim>\<open>#\<close> followed by six
  upper-case hexadecimal digits, and the colour of row \<open>i\<close> and column \<open>j\<close> is \<open>hslToHex\<close>
  of the hue \<open>(j / 20) \<times> 360\<close>, the saturation 100 and the lightness \<open>95 - i \<times> 10\<close>
  (rows 0 to 3) or \<open>60 - (i - 4) \<times> 4\<close> (rows 4 to 15), the rows in order and the columns in
  order within a row.
\<close>

theorem generateColorGrid_deterministic:
  "generateColorGrid = gridColors \<and>
   length generateColorGrid = 16 * 20 \<and>
   list_all wellFormedColor generateColorGrid \<and>
   generateColorGrid =
     concat (map (\<lambda>i. map (\<lambda>j. hslToHex (specHue j) 100 (specLightness i)) [0..<20]) [0..<16])"
proof -
  have "length gridColors = 16 * 20"
    by (simp add: gridColors_def)
  moreover have "list_all wellFormedColor gridColors"
    by (simp add: gridColors_def wellFormedColor_def)
  ultimately show ?thesis
    using generateColorGrid_scheme by (simp add: generateColorGrid_value)
qed

lemma digitValue_hex:
  "digitValue CHR ''0'' = 0" "digitValue CHR ''1'' = 1" "digitValue CHR ''2'' = 2"
  "digitValue CHR ''3'' = 3" "digitValue CHR ''4'' = 4" "digitValue CHR ''5'' = 5"
  "digitValue CHR ''6'' = 6" "digitValue CHR ''7'' = 7" "digitValue CHR ''8'' = 8"
  "digitValue CHR ''9'' = 9" "digitValue CHR ''A'' = 10" "digitValue CHR ''B'' = 11"
  "digitValue CHR ''C'' = 12" "digitValue CHR ''D'' = 13" "digitValue CHR ''E'' = 14"
  "digitValue CHR ''F'' = 15"
  by (simp_all add: digitValue_def)




subsection \<open>Proximity\<close>

text \<open>
  Claim C3. For all positions \<open>a\<close>, \<open>b\<close> and every \<open>maxDistance\<close>,
  \<open>isWithinProximity a b maxDistance\<close> holds exactly when the Chebyshev distance
  \<open>max (abs (row a - row b)) (abs (col a - col b))\<close> is greater than 0 and at most \<open>maxDistance\<close>;
  it is false when that distance is 0 or exceeds \<open>maxDistance\<close>, and it is symmetric in
  its first two arguments.
\<close>

theorem isWithinProximity_chebyshev:
  "(isWithinProximity a b maxDistance =
      (0 < max (abs (row a - row b)) (abs (col a - col b)) \<and>
       max (abs (row a - row b)) (abs (col a - col b)) \<le> maxDistance)) \<and>
   (max (abs (row a - row b)) (abs (col a - col b)) = 0 \<longrightarrow>
      \<not> isWithinProximity a b maxDistance) \<and>
   (maxDistance < max (abs (row a - row b)) (abs (col a - col b)) \<longrightarrow>
      \<not> isWithinProximity a b maxDistance) \<and>
   isWithinProximity a b maxDistance = isWithinProximity b a maxDistance"
  by (auto simp: isWithinProximity_def Let_def max_def)

theorem isWithinProximity_chebyshev_witness:
  "isWithinProximity \<lparr>row = 5, col = 10\<rparr> \<lparr>row = 4, col = 11\<rparr> 1 \<and>
   max (abs (row \<lparr>row = 5, col = 10\<rparr> - row \<lparr>row = 5, col = 10\<rparr>))
       (abs (col \<lparr>row = 5, col = 10\<rparr> - col \<lparr>row = 5, col = 10\<rparr>)) = 0 \<and>
   \<not> isWithinProximity \<lparr>row = 5, col = 10\<rparr> \<lparr>row = 5, col = 10\<rparr> 1 \<and>
   1 < max (abs (row \<lparr>row = 5, col = 10\<rparr> - row \<lparr>row = 7, col = 10\<rparr>))
           (abs (col \<lparr>row = 5, col = 10\<rparr> - col \<lparr>row = 7, col = 10\<rparr>)) \<and>
   \<not> isWithinProximity \<lparr>row = 5, col = 10\<rparr> \<lparr>row = 7, col = 10\<rparr> 1"
  using isWithinProximity_chebyshev [of "\<lparr>row = 5, col = 10\<rparr>" "\<lparr>row = 4, col = 11\<rparr>" 1]
    isWithinProximity_chebyshev [of "\<lparr>row = 5, col = 10\<rparr>" "\<lparr>row = 5, col = 10\<rparr>" 1]
    isWithinProximity_chebyshev [of "\<lparr>row = 5, col = 10\<rparr>" "\<lparr>row = 7, col = 10\<rparr>" 1]
  by simp

subsection \<open>Colour lookup\<close>

lemma findIndexFrom_None: "findIndexFrom p xs i = None \<longleftrightarrow> (\<forall>x \<in> set xs. \<not> p x)"
  by (induction xs arbitrary: i) auto

lemma findIndexFrom_Some:
  "findIndexFrom p xs i = Some k \<Longrightarrow>
     i \<le> k \<and> k - i < length xs \<and> p (xs ! (k - i)) \<and> (\<forall>j < k - i. \<not> p (xs ! j))"
proof (induction xs arbitrary: i)
  case Nil
  then show ?case by simp
next
  case (Cons x xs)
  show ?case
  proof (cases "p x")
    case True
    with Cons.prems show ?thesis by simp
  next
    case False
    with Cons.prems have "findIndexFrom p xs (Suc i) = Some k" by simp
    from Cons.IH [OF this]
    have k: "Suc i \<le> k" and len: "k - Suc i < length xs" and hit: "p (xs ! (k - Suc i))"
      and miss: "\<forall>j < k - Suc i. \<not> p (xs ! j)"
      by simp_all
    from k have eq: "k - i = Suc (k - Suc i)" by simp
    have "\<not> p ((x # xs) ! j)" if "j < k - i" for j
      using that False miss eq by (cases j) simp_all
    then show ?thesis using k len hit eq by simp
  qed
qed

lemma findIndex_first:
  assumes "k < length xs" "p (xs ! k)" "\<forall>j < k. \<not> p (xs ! j)"
  shows "findIndex p xs = Some k"
proof (cases "findIndex p xs")
  case None
  then have "\<forall>x \<in> set xs. \<not> p x"
    by (simp add: findIndex_def findIndexFrom_None)
  with assms(1,2) show ?thesis by auto
next
  case (Some k')
  from findIndexFrom_Some [of p xs 0 k'] Some
  have k': "k' < length xs" "p (xs ! k')" "\<forall>j < k'. \<not> p (xs ! j)"
    by (simp_all add: findIndex_def)
  have "\<not> k' < k" using assms(3) k'(2) by blast
  moreover have "\<not> k < k'" using k'(3) assms(2) by blast
  ultimately show ?thesis using Some by simp
qed

lemma closestInv_step:
  assumes "closestInv t pre (ci, md)"
  shows "closestInv t (pre @ [x])
     (if (case md of None \<Rightarrow> True | Some m \<Rightarrow> distance (hexToRgb x) t < m)
      then (length pre, Some (distance (hexToRgb x) t)) else (ci, md))"
proof (cases md)
  case None
  with assms have "pre = []" by (simp add: closestInv_def)
  with None show ?thesis by (simp add: closestInv_def)
next
  case (Some m)
  with assms have ci: "ci < length pre" and m: "m = distance (hexToRgb (pre ! ci)) t"
    and least: "\<forall>j < length pre. m \<le> distance (hexToRgb (pre ! j)) t"
    and first: "\<forall>j < ci. m < distance (hexToRgb (pre ! j)) t"
    by (auto simp: closestInv_def)
  show ?thesis
  proof (cases "distance (hexToRgb x) t < m")
    case True
    have "distance (hexToRgb x) t \<le> distance (hexToRgb ((pre @ [x]) ! j)) t"
      if "j < length (pre @ [x])" for j
      using that least True by (cases "j < length pre") (force simp: nth_append)+
    moreover have "distance (hexToRgb x) t < distance (hexToRgb ((pre @ [x]) ! j)) t"
      if "j < length pre" for j
      using that least True by (force simp: nth_append)
    ultimately show ?thesis using Some True by (simp add: closestInv_def)
  next
    case False
    have "m \<le> distance (hexToRgb ((pre @ [x]) ! j)) t" if "j < length (pre @ [x])" for j
      using that least False by (cases "j < length pre") (auto simp: nth_append less_Suc_eq)
    moreover have "m < distance (hexToRgb ((pre @ [x]) ! j)) t" if "j < ci" for j
      using that first ci by (simp add: nth_append)
    ultimately show ?thesis using Some False ci m by (simp add: closestInv_def nth_append)
  qed
qed

lemma closestLoop_inv:
  "closestInv t pre st \<Longrightarrow> closestInv t (pre @ xs) (closestLoop t xs (length pre) st)"
proof (induction xs arbitrary: pre st)
  case Nil
  then show ?case by simp
next
  case (Cons x xs)
  obtain ci md where st: "st = (ci, md)" by (cases st)
  from closestInv_step [of t pre ci md x] Cons.prems st
  have "closestInv t (pre @ [x])
     (if (case md of None \<Rightarrow> True | Some m \<Rightarrow> distance (hexToRgb x) t < m)
      then (length pre, Some (distance (hexToRgb x) t)) else (ci, md))"
    by simp
  from Cons.IH [OF this] show ?case
    by (simp add: st Let_def)
qed

lemma closestLoop_first_least:
  assumes "grid \<noteq> []"
  shows "\<exists>k < length grid. fst (closestLoop t grid 0 (0, None)) = k \<and>
     (\<forall>j < length grid. distance (hexToRgb (grid ! k)) t \<le> distance (hexToRgb (grid ! j)) t) \<and>
     (\<forall>j < k. distance (hexToRgb (grid ! k)) t < distance (hexToRgb (grid ! j)) t)"
proof -
  have "closestInv t [] (0, None)" by (simp add: closestInv_def)
  from closestLoop_inv [OF this, of grid]
  have inv: "closestInv t grid (closestLoop t grid 0 (0, None))" by simp
  obtain ci md where res: "closestLoop t grid 0 (0, None) = (ci, md)"
    by (cases "closestLoop t grid 0 (0, None)")
  show ?thesis
  proof (cases md)
    case None
    with inv res assms show ?thesis by (simp add: closestInv_def)
  next
    case (Some m)
    with inv res show ?thesis by (auto simp: closestInv_def)
  qed
qed

text \<open>
  The comparisons of the loop are comparisons of the sums of squares, and so of the
  Euclidean distances.
\<close>

lemma digitValue_range: "0 \<le> digitValue c \<and> digitValue c \<le> 15"
  by (simp add: digitValue_def)

lemma parseInt16_two:
  assumes "length s = 2"
  shows "0 \<le> parseInt16 s \<and> parseInt16 s \<le> 255"
proof -
  from assms obtain c d where s: "s = [c, d]"
    by (cases s; cases "tl s") auto
  have "parseInt16 [c, d] = digitValue c * 16 + digitValue d"
    by (simp add: parseInt16_def)
  with digitValue_range [of c] digitValue_range [of d] s show ?thesis
    by simp
qed

lemma hexToRgb_channels: "channels (hexToRgb x)"
proof (cases "hexMatch x")
  case True
  then have "length (hexBody x) = 6" by (simp add: hexMatch_def)
  then have "length (take 2 (hexBody x)) = 2" "length (take 2 (drop 2 (hexBody x))) = 2"
    "length (drop 4 (hexBody x)) = 2"
    by simp_all
  with True show ?thesis
    by (simp add: hexToRgb_def parseInt16_two)
next
  case False
  then show ?thesis by (simp add: hexToRgb_def)
qed

lemma square_255:
  fixes x :: int
  assumes "- 255 \<le> x" "x \<le> 255"
  shows "x\<^sup>2 \<le> 65025"
proof -
  from assms have "abs x \<le> abs 255" by simp
  then have "x\<^sup>2 \<le> 255\<^sup>2" by (simp only: abs_le_square_iff)
  then show ?thesis by simp
qed

lemma distanceSq_range:
  assumes "channels p" "channels t"
  shows "0 \<le> distanceSq p t \<and> distanceSq p t \<le> 195075"
proof -
  obtain r g b where p: "p = (r, g, b)" by (cases p)
  obtain tr tg tb where t: "t = (tr, tg, tb)" by (cases t)
  from assms p t have "(r - tr)\<^sup>2 \<le> 65025" "(g - tg)\<^sup>2 \<le> 65025" "(b - tb)\<^sup>2 \<le> 65025"
    by (simp_all add: square_255)
  then show ?thesis by (simp add: p t)
qed

lemma distance_less_iff:
  assumes "channels p" "channels p'" "channels t"
  shows "distance p t < distance p' t \<longleftrightarrow> distanceSq p t < distanceSq p' t"
  using distanceSq_range [OF assms(1,3)] distanceSq_range [OF assms(2,3)]
  by (simp add: distance_def Math_sqrt_less_iff)

lemma distance_le_iff:
  assumes "channels p" "channels p'" "channels t"
  shows "distance p t \<le> distance p' t \<longleftrightarrow> distanceSq p t \<le> distanceSq p' t"
  using distance_less_iff [OF assms(2,1,3)] by (simp add: not_less [symmetric])

lemma channels_black: "channels (0, 0, 0)"
  by simp

lemma euclid_less_iff: "euclid p t < euclid p' t \<longleftrightarrow> distanceSq p t < distanceSq p' t"
  by (simp add: euclid_def)

lemma euclid_le_iff: "euclid p t \<le> euclid p' t \<longleftrightarrow> distanceSq p t \<le> distanceSq p' t"
  by (simp add: euclid_def)

lemma closestLoop_first_least_euclid:
  assumes "channels t" "grid \<noteq> []"
  shows "\<exists>k < length grid. fst (closestLoop t grid 0 (0, None)) = k \<and>
     (\<forall>j < length grid. euclid (hexToRgb (grid ! k)) t \<le> euclid (hexToRgb (grid ! j)) t) \<and>
     (\<forall>j < k. euclid (hexToRgb (grid ! k)) t < euclid (hexToRgb (grid ! j)) t)"
  using closestLoop_first_least [OF assms(2), of t]
  by (simp add: distance_less_iff distance_le_iff euclid_less_iff euclid_le_iff
      hexToRgb_channels assms(1))

lemma findColorPosition_exact:
  assumes "k < length grid" "toLowerCase (grid ! k) = toLowerCase q"
    "\<forall>j < k. toLowerCase (grid ! j) \<noteq> toLowerCase q"
  shows "findColorPosition grid q = \<lparr>row = int (k div 20), col = int (k mod 20)\<rparr>"
  using findIndex_first [of k grid "\<lambda>c. toLowerCase c = toLowerCase q"] assms
  by (simp add: findColorPosition_def positionAt_def)

lemma findColorPosition_nearest:
  assumes "\<forall>x \<in> set grid. toLowerCase x \<noteq> toLowerCase q"
  shows "findColorPosition grid q = positionAt (fst (closestLoop (hexToRgb q) grid 0 (0, None)))"
proof -
  from assms have "findIndex (\<lambda>c. toLowerCase c = toLowerCase q) grid = None"
    by (simp add: findIndex_def findIndexFrom_None)
  then show ?thesis
    by (simp add: findColorPosition_def Let_def split: prod.split)
qed

lemma closestLoop_sq:
  assumes "channels t"
    and "case md of None \<Rightarrow> True | Some m \<Rightarrow> 0 \<le> m \<and> m \<le> 195075"
  shows "closestLoop t xs i (ci, map_option (\<lambda>v. Math_sqrt (of_int v)) md) =
     (case closestLoopSq t xs i (ci, md) of
        (k, m) \<Rightarrow> (k, map_option (\<lambda>v. Math_sqrt (of_int v)) m))"
  using assms(2)
proof (induction xs arbitrary: i ci md)
  case Nil
  then show ?case by simp
next
  case (Cons x xs)
  let ?d = "distanceSq (hexToRgb x) t"
  have d: "0 \<le> ?d \<and> ?d \<le> 195075"
    using distanceSq_range [OF hexToRgb_channels assms(1)] .
  show ?case
  proof (cases md)
    case None
    with d Cons.IH [of "Some ?d" "Suc i" i] show ?thesis
      by (simp add: Let_def distance_def)
  next
    case (Some m)
    with Cons.prems have m: "0 \<le> m" "m \<le> 195075" by simp_all
    have cmp: "distance (hexToRgb x) t < Math_sqrt (of_int m) \<longleftrightarrow> ?d < m"
      using d m by (simp add: distance_def Math_sqrt_less_iff)
    show ?thesis
    proof (cases "?d < m")
      case True
      with Some cmp d Cons.IH [of "Some ?d" "Suc i" i] show ?thesis
        by (simp add: Let_def distance_def)
    next
      case False
      with Some cmp m Cons.IH [of "Some m" "Suc i" ci] show ?thesis
        by (simp add: Let_def)
    qed
  qed
qed

lemma closestLoop_index:
  assumes "channels t"
  shows "fst (closestLoop t xs 0 (0, None)) = fst (closestLoopSq t xs 0 (0, None))"
  using closestLoop_sq [OF assms, of None xs 0 0] by (simp split: prod.split)

lemma lowerChar_hash: "lowerChar c = CHR ''#'' \<longleftrightarrow> c = CHR ''#''"
  by (auto simp: lowerChar_def split: if_splits)

lemma isHexDigit_lowerChar: "isHexDigit (lowerChar c) = isHexDigit c"
  by (auto simp: lowerChar_def isHexDigit_def split: if_splits)

lemma hexBody_toLowerCase: "hexBody (toLowerCase s) = toLowerCase (hexBody s)"
  by (cases s) (simp_all add: hexBody_def toLowerCase_def lowerChar_hash)

lemma hexMatch_toLowerCase: "hexMatch (toLowerCase s) = hexMatch s"
  by (simp add: hexMatch_def hexBody_toLowerCase)
     (simp add: toLowerCase_def list.pred_map comp_def isHexDigit_lowerChar)

lemma hexMatch_cong: "toLowerCase x = toLowerCase q \<Longrightarrow> hexMatch x = hexMatch q"
  using hexMatch_toLowerCase [of x] hexMatch_toLowerCase [of q] by simp

lemma isHexDigit_hex:
  "isHexDigit CHR ''0''" "isHexDigit CHR ''1''" "isHexDigit CHR ''2''" "isHexDigit CHR ''3''"
  "isHexDigit CHR ''4''" "isHexDigit CHR ''5''" "isHexDigit CHR ''6''" "isHexDigit CHR ''7''"
  "isHexDigit CHR ''8''" "isHexDigit CHR ''9''" "isHexDigit CHR ''A''" "isHexDigit CHR ''B''"
  "isHexDigit CHR ''C''" "isHexDigit CHR ''D''" "isHexDigit CHR ''E''" "isHexDigit CHR ''F''"
  by (simp_all add: isHexDigit_def)

lemma first_least_unique:
  fixes d :: "nat \<Rightarrow> real"
  assumes "\<forall>j < n. d k \<le> d j" "\<forall>j < k. d k < d j" "k < n"
    and "\<forall>j < n. d k' \<le> d j" "\<forall>j < k'. d k' < d j" "k' < n"
  shows "k = k'"
proof (rule ccontr)
  assume "k \<noteq> k'"
  then consider "k < k'" | "k' < k" by linarith
  then show False
  proof cases
    case 1
    with assms(5) have "d k' < d k" by simp
    moreover from assms(1,6) have "d k \<le> d k'" by simp
    ultimately show False by simp
  next
    case 2
    with assms(2) have "d k < d k'" by simp
    moreover from assms(4,3) have "d k' \<le> d k" by simp
    ultimately show False by simp
  qed
qed

lemma gridColors_hexMatch: "list_all hexMatch gridColors"
  by (simp add: gridColors_def hexMatch_def hexBody_def isHexDigit_hex)

lemma gridColors_black:
  "map (\<lambda>c. distanceSq (hexToRgb c) (0, 0, 0)) gridColors =
     [169907, 173635, 177491, 180970, 179966, 176030, 172691, 171290, 175066, 178475,
      182491, 178475, 175066, 171290, 172691, 176030, 179966, 180970, 177491, 173635,
      129107, 137467, 147242, 158075, 154666, 144155, 134702, 131662, 140747, 150890,
      162091, 150890, 140747, 131662, 134702, 144155, 154666, 158075, 147242, 137467,
      97793, 108965, 123025, 139973, 134309, 117890, 104818, 101009, 113450, 128498,
      146434, 128498, 113450, 101009, 104818, 117890, 133850, 139973, 123025, 108965,
      76883, 87854, 104810, 127123, 118915, 98510, 83498, 79790, 92858, 111355,
      135979, 111355, 92858, 79790, 83498, 98510, 118915, 127123, 104810, 87854,
      70227, 80170, 97555, 122851, 113422, 91035, 76090, 72667, 85315, 105262,
      132651, 105262, 85315, 72667, 76090, 91035, 113422, 122851, 97555, 80170,
      66947, 75590, 93211, 120275, 110086, 86435, 71611, 68795, 80386, 101330,
      131011, 101330, 80386, 68795, 71611, 86435, 110086, 120275, 93211, 75590,
      65225, 72181, 89774, 118486, 107561, 82814, 68606, 66350, 76789, 98249,
      130150, 98249, 76789, 66350, 68606, 82814, 107561, 118486, 89774, 72181,
      60025, 65354, 81634, 108425, 98441, 74909, 62426, 60601, 69629, 89266,
      120050, 89266, 69629, 60601, 62426, 74909, 98441, 108425, 81634, 65354,
      50176, 54665, 68401, 90980, 82576, 62720, 52201, 50660, 58276, 74825,
      100352, 74825, 58276, 50660, 52201, 62720, 82576, 90980, 68401, 54665,
      41616, 45337, 56500, 75472, 68185, 52020, 43297, 42016, 48340, 62065,
      83232, 62065, 48340, 42016, 43297, 52020, 68185, 75472, 56500, 45337,
      33856, 36881, 45956, 61081, 55465, 42320, 35225, 34180, 39185, 50497,
      67712, 50497, 39185, 34180, 35225, 42320, 55465, 61081, 45956, 36881,
      26569, 28970, 36173, 48178, 43730, 33293, 27658, 26825, 30794, 39565,
      53138, 39565, 30794, 26825, 27658, 33293, 43730, 48178, 36173, 28970,
      20449, 22298, 27845, 37090, 33445, 25490, 21290, 20645, 23698, 30449,
      40898, 30449, 23698, 20645, 21290, 25490, 33445, 37090, 27845, 22298,
      14884, 16253, 20213, 26984, 24488, 18605, 15460, 15028, 17285, 22280,
      29768, 22280, 17285, 15028, 15460, 18605, 24488, 26984, 20213, 16253,
      10404, 11365, 14125, 18868, 17128, 13005, 10804, 10504, 12085, 15445,
      20808, 15445, 12085, 10504, 10804, 13005, 17128, 18868, 14125, 11365,
      6724, 7300, 9125, 12053, 10949, 8405, 6980, 6788, 7813, 9973,
      13448, 9973, 7813, 6788, 6980, 8405, 10949, 12053, 9125, 7300]"
  by (simp add: gridColors_def hexToRgb_def hexMatch_def hexBody_def isHexDigit_hex
      parseInt16_def digitValue_hex)

lemma gridColors_length: "length gridColors = 320"
  by (simp add: gridColors_def)

lemma gridColors_black_least:
  "\<forall>j < 320. distanceSq (hexToRgb (gridColors ! 300)) (0, 0, 0)
       \<le> distanceSq (hexToRgb (gridColors ! j)) (0, 0, 0)"
  "\<forall>j < 300. distanceSq (hexToRgb (gridColors ! 300)) (0, 0, 0)
       < distanceSq (hexToRgb (gridColors ! j)) (0, 0, 0)"
proof -
  let ?ds = "map (\<lambda>c. distanceSq (hexToRgb c) (0, 0, 0)) gridColors"
  have n: "length ?ds = 320" by (simp add: gridColors_length)
  have at: "?ds ! 300 = 6724" unfolding gridColors_black by simp
  have "list_all (\<lambda>v. 6724 \<le> v) ?ds" unfolding gridColors_black by simp
  then have le: "\<forall>j < 320. 6724 \<le> ?ds ! j"
    by (simp add: list_all_length n del: length_map nth_map)
  have "list_all (\<lambda>v. 6724 < v) (take 300 ?ds)" unfolding gridColors_black by simp
  then have "\<forall>j < 300. 6724 < take 300 ?ds ! j"
    by (simp add: list_all_length n del: length_map nth_map take_map)
  then have lt: "\<forall>j < 300. 6724 < ?ds ! j" by simp
  have nth: "?ds ! j = distanceSq (hexToRgb (gridColors ! j)) (0, 0, 0)" if "j < 320" for j
    using that by (simp add: gridColors_length)
  have a300: "distanceSq (hexToRgb (gridColors ! 300)) (0, 0, 0) = 6724"
    using at nth [of 300] by simp
  show "\<forall>j < 320. distanceSq (hexToRgb (gridColors ! 300)) (0, 0, 0)
       \<le> distanceSq (hexToRgb (gridColors ! j)) (0, 0, 0)"
  proof (intro allI impI)
    fix j :: nat
    assume j: "j < 320"
    with le have "6724 \<le> ?ds ! j" by blast
    with nth [OF j] a300 show "distanceSq (hexToRgb (gridColors ! 300)) (0, 0, 0)
       \<le> distanceSq (hexToRgb (gridColors ! j)) (0, 0, 0)"
      by simp
  qed
  show "\<forall>j < 300. distanceSq (hexToRgb (gridColors ! 300)) (0, 0, 0)
       < distanceSq (hexToRgb (gridColors ! j)) (0, 0, 0)"
  proof (intro allI impI)
    fix j :: nat
    assume j: "j < 300"
    with lt have "6724 < ?ds ! j" by blast
    moreover from j have "j < 320" by simp
    ultimately show "distanceSq (hexToRgb (gridColors ! 300)) (0, 0, 0)
       < distanceSq (hexToRgb (gridColors ! j)) (0, 0, 0)"
      using nth [of j] a300 by simp
  qed
qed

lemmas rgb_eval = hexToRgb_def hexMatch_def hexBody_def isHexDigit_hex parseInt16_def
  digitValue_hex

text \<open>
  Claim C4. For every grid and every query colour \<open>q\<close>: if \<open>q\<close> occurs in the grid up to
  letter case, \<open>findColorPosition\<close> returns the position of the first such index \<open>k\<close>,
  with row \<open>k div 20\<close> and column \<open>k mod 20\<close>; if \<open>q\<close> does not occur and the grid is not
  empty, it returns the position of the first index whose colour has the least Euclidean
  distance from \<open>q\<close> in RGB space; on the empty grid it returns the position of index 0.
\<close>

theorem findColorPosition_spec:
  "(\<forall>k. k < length grid \<longrightarrow> toLowerCase (grid ! k) = toLowerCase q \<longrightarrow>
        (\<forall>j < k. toLowerCase (grid ! j) \<noteq> toLowerCase q) \<longrightarrow>
        findColorPosition grid q = \<lparr>row = int (k div 20), col = int (k mod 20)\<rparr>) \<and>
   ((\<forall>x \<in> set grid. toLowerCase x \<noteq> toLowerCase q) \<longrightarrow> grid \<noteq> [] \<longrightarrow>
      (\<exists>k < length grid.
         findColorPosition grid q = \<lparr>row = int (k div 20), col = int (k mod 20)\<rparr> \<and>
         (\<forall>j < length grid.
            euclid (hexToRgb (grid ! k)) (hexToRgb q) \<le> euclid (hexToRgb (grid ! j)) (hexToRgb q)) \<and>
         (\<forall>j < k.
            euclid (hexToRgb (grid ! k)) (hexToRgb q) < euclid (hexToRgb (grid ! j)) (hexToRgb q)))) \<and>
   findColorPosition [] q = \<lparr>row = 0, col = 0\<rparr>"
proof (intro conjI allI impI)
  fix k
  assume "k < length grid" "toLowerCase (grid ! k) = toLowerCase q"
    "\<forall>j < k. toLowerCase (grid ! j) \<noteq> toLowerCase q"
  then show "findColorPosition grid q = \<lparr>row = int (k div 20), col = int (k mod 20)\<rparr>"
    by (rule findColorPosition_exact)
next
  assume miss: "\<forall>x \<in> set grid. toLowerCase x \<noteq> toLowerCase q" and ne: "grid \<noteq> []"
  from closestLoop_first_least_euclid [OF hexToRgb_channels ne, of q] findColorPosition_nearest [OF miss]
  show "\<exists>k < length grid.
         findColorPosition grid q = \<lparr>row = int (k div 20), col = int (k mod 20)\<rparr> \<and>
         (\<forall>j < length grid.
            euclid (hexToRgb (grid ! k)) (hexToRgb q) \<le> euclid (hexToRgb (grid ! j)) (hexToRgb q)) \<and>
         (\<forall>j < k.
            euclid (hexToRgb (grid ! k)) (hexToRgb q) < euclid (hexToRgb (grid ! j)) (hexToRgb q))"
    by (auto simp: positionAt_def)
next
  show "findColorPosition [] q = \<lparr>row = 0, col = 0\<rparr>"
    by (simp add: findColorPosition_def findIndex_def positionAt_def)
qed

theorem findColorPosition_spec_witness:
  "findColorPosition [''#FF0000'', ''#00ff00'', ''#0000FF''] ''#00FF00'' = \<lparr>row = 0, col = 1\<rparr> \<and>
   findColorPosition [''#FF0000'', ''#00ff00'', ''#0000FF''] ''#000180'' = \<lparr>row = 0, col = 2\<rparr> \<and>
   findColorPosition [] ''#00FF00'' = \<lparr>row = 0, col = 0\<rparr>"
proof -
  let ?grid = "[''#FF0000'', ''#00ff00'', ''#0000FF'']"
  have lower: "toLowerCase ''#FF0000'' = ''#ff0000''" "toLowerCase ''#00ff00'' = ''#00ff00''"
    "toLowerCase ''#0000FF'' = ''#0000ff''" "toLowerCase ''#00FF00'' = ''#00ff00''"
    "toLowerCase ''#000180'' = ''#000180''"
    by (simp_all add: toLowerCase_def lowerChar_def)
  have hit: "(1 :: nat) < length ?grid \<and> toLowerCase (?grid ! 1) = toLowerCase ''#00FF00'' \<and>
      (\<forall>j < (1 :: nat). toLowerCase (?grid ! j) \<noteq> toLowerCase ''#00FF00'')"
    by (simp add: lower)
  have miss: "(\<forall>x \<in> set ?grid. toLowerCase x \<noteq> toLowerCase ''#000180'') \<and> ?grid \<noteq> []"
    by (simp add: lower)
  from findColorPosition_spec [of ?grid "''#00FF00''"] hit
  have "findColorPosition ?grid ''#00FF00'' = \<lparr>row = int (1 div 20), col = int (1 mod 20)\<rparr>"
    by blast
  then have first: "findColorPosition ?grid ''#00FF00'' = \<lparr>row = 0, col = 1\<rparr>"
    by simp
  from findColorPosition_spec [of ?grid "''#000180''"] miss
  obtain k where k: "k < length ?grid"
    and pos: "findColorPosition ?grid ''#000180'' = \<lparr>row = int (k div 20), col = int (k mod 20)\<rparr>"
    and least: "\<forall>j < length ?grid.
         euclid (hexToRgb (?grid ! k)) (hexToRgb ''#000180'')
           \<le> euclid (hexToRgb (?grid ! j)) (hexToRgb ''#000180'')"
    by blast
  from least [rule_format, of 2]
  have "euclid (hexToRgb (?grid ! k)) (hexToRgb ''#000180'')
      \<le> euclid (hexToRgb (?grid ! 2)) (hexToRgb ''#000180'')"
    by simp
  then have le: "distanceSq (hexToRgb (?grid ! k)) (hexToRgb ''#000180'')
      \<le> distanceSq (hexToRgb (?grid ! 2)) (hexToRgb ''#000180'')"
    by (simp only: euclid_le_iff)
  from k have "k = 0 \<or> k = 1 \<or> k = 2" by auto
  with le have "k = 2"
    by (auto simp: rgb_eval isHexDigit_def digitValue_def)
  with pos have second: "findColorPosition ?grid ''#000180'' = \<lparr>row = 0, col = 2\<rparr>"
    by simp
  from findColorPosition_spec [of ?grid "''#00FF00''"]
  have "findColorPosition [] ''#00FF00'' = \<lparr>row = 0, col = 0\<rparr>"
    by blast
  with first second show ?thesis by simp
qed

lemma gridColors_nearest_black: "fst (closestLoop (0, 0, 0) gridColors 0 (0, None)) = 300"
proof -
  have "gridColors \<noteq> []" using gridColors_length by auto
  from closestLoop_first_least_euclid [OF channels_black this]
  obtain k where k: "k < length gridColors"
    and res: "fst (closestLoop (0, 0, 0) gridColors 0 (0, None)) = k"
    and least: "\<forall>j < length gridColors.
        euclid (hexToRgb (gridColors ! k)) (0, 0, 0) \<le> euclid (hexToRgb (gridColors ! j)) (0, 0, 0)"
    and first: "\<forall>j < k.
        euclid (hexToRgb (gridColors ! k)) (0, 0, 0) < euclid (hexToRgb (gridColors ! j)) (0, 0, 0)"
    by blast
  have "k = 300"
  proof (rule first_least_unique [where n = 320
        and d = "\<lambda>j. euclid (hexToRgb (gridColors ! j)) (0, 0, 0)"])
    show "\<forall>j < 320. euclid (hexToRgb (gridColors ! k)) (0, 0, 0)
        \<le> euclid (hexToRgb (gridColors ! j)) (0, 0, 0)"
      using least by (simp add: gridColors_length)
    show "\<forall>j < k. euclid (hexToRgb (gridColors ! k)) (0, 0, 0)
        < euclid (hexToRgb (gridColors ! j)) (0, 0, 0)"
      using first .
    show "k < 320" using k by (simp add: gridColors_length)
    show "\<forall>j < 320. euclid (hexToRgb (gridColors ! 300)) (0, 0, 0)
        \<le> euclid (hexToRgb (gridColors ! j)) (0, 0, 0)"
      using gridColors_black_least(1) by (simp add: euclid_le_iff)
    show "\<forall>j < 300. euclid (hexToRgb (gridColors ! 300)) (0, 0, 0)
        < euclid (hexToRgb (gridColors ! j)) (0, 0, 0)"
      using gridColors_black_least(2) by (simp add: euclid_less_iff)
    show "(300 :: nat) < 320" by simp
  qed
  with res show ?thesis by simp
qed

lemma hexToRgb_malformed: "\<not> hexMatch q \<Longrightarrow> hexToRgb q = (0, 0, 0)"
  by (simp add: hexToRgb_def)

lemma distanceSq_nonneg: "0 \<le> distanceSq p t"
  by (cases p; cases t) simp

lemma euclid_nonneg: "0 \<le> euclid p t"
  by (simp add: euclid_def distanceSq_nonneg)

lemma euclid_black_black: "euclid (0, 0, 0) (0, 0, 0) = 0"
  by (simp add: euclid_def)

lemma findIndex_Some:
  assumes "findIndex p xs = Some k"
  shows "k < length xs \<and> p (xs ! k)"
  using findIndexFrom_Some [of p xs 0 k] assms by (simp add: findIndex_def)

text \<open>
  Claim C10. \<open>findColorPosition\<close> is total on arbitrary query strings. For a query that
  does not match the pattern of six hexadecimal digits, \<open>hexToRgb\<close> is black, and the
  result on a non-empty grid is the position of a grid colour at the least distance from
  black; on the generated grid it is row 15, column 0.
\<close>

theorem findColorPosition_malformed:
  assumes "\<not> hexMatch q"
  shows "hexToRgb q = (0, 0, 0) \<and>
    (grid \<noteq> [] \<longrightarrow>
      (\<exists>k < length grid.
         findColorPosition grid q = \<lparr>row = int (k div 20), col = int (k mod 20)\<rparr> \<and>
         (\<forall>j < length grid.
            euclid (hexToRgb (grid ! k)) (0, 0, 0) \<le> euclid (hexToRgb (grid ! j)) (0, 0, 0)))) \<and>
    findColorPosition generateColorGrid q = \<lparr>row = 15, col = 0\<rparr>"
proof (intro conjI impI)
  show black: "hexToRgb q = (0, 0, 0)"
    using assms by (rule hexToRgb_malformed)
  show "\<exists>k < length grid.
         findColorPosition grid q = \<lparr>row = int (k div 20), col = int (k mod 20)\<rparr> \<and>
         (\<forall>j < length grid.
            euclid (hexToRgb (grid ! k)) (0, 0, 0) \<le> euclid (hexToRgb (grid ! j)) (0, 0, 0))"
    if ne: "grid \<noteq> []"
  proof (cases "findIndex (\<lambda>c. toLowerCase c = toLowerCase q) grid")
    case None
    then have miss: "\<forall>x \<in> set grid. toLowerCase x \<noteq> toLowerCase q"
      by (simp add: findIndex_def findIndexFrom_None)
    from closestLoop_first_least_euclid [OF channels_black ne] findColorPosition_nearest [OF miss]
    show ?thesis
      by (auto simp: positionAt_def black)
  next
    case (Some k)
    from findIndex_Some [OF Some] have k: "k < length grid"
      and eq: "toLowerCase (grid ! k) = toLowerCase q"
      by simp_all
    from hexMatch_cong [OF eq] assms have "hexToRgb (grid ! k) = (0, 0, 0)"
      by (simp add: hexToRgb_malformed)
    then have "\<forall>j < length grid.
        euclid (hexToRgb (grid ! k)) (0, 0, 0) \<le> euclid (hexToRgb (grid ! j)) (0, 0, 0)"
      by (simp add: euclid_black_black euclid_nonneg)
    moreover have "findColorPosition grid q = \<lparr>row = int (k div 20), col = int (k mod 20)\<rparr>"
      using Some by (simp add: findColorPosition_def positionAt_def)
    ultimately show ?thesis using k by blast
  qed
  show "findColorPosition generateColorGrid q = \<lparr>row = 15, col = 0\<rparr>"
  proof -
    have "\<forall>x \<in> set gridColors. toLowerCase x \<noteq> toLowerCase q"
    proof
      fix x
      assume "x \<in> set gridColors"
      with gridColors_hexMatch have "hexMatch x" by (simp add: list_all_iff)
      with assms hexMatch_cong [of x q] show "toLowerCase x \<noteq> toLowerCase q" by auto
    qed
    from findColorPosition_nearest [OF this] show ?thesis
      by (simp add: generateColorGrid_value black gridColors_nearest_black positionAt_def)
  qed
qed

theorem findColorPosition_malformed_witness:
  "\<not> hexMatch ''pink'' \<and> hexToRgb ''pink'' = (0, 0, 0) \<and>
   findColorPosition [''#FF0000'', ''#100000'', ''#0000FF''] ''pink'' = \<lparr>row = 0, col = 1\<rparr> \<and>
   findColorPosition generateColorGrid ''pink'' = \<lparr>row = 15, col = 0\<rparr>"
proof -
  let ?grid = "[''#FF0000'', ''#100000'', ''#0000FF'']"
  have m: "\<not> hexMatch ''pink''"
    by (simp add: hexMatch_def hexBody_def)
  note inst = findColorPosition_malformed [OF m, of ?grid]
  from inst obtain k where k: "k < length ?grid"
    and pos: "findColorPosition ?grid ''pink'' = \<lparr>row = int (k div 20), col = int (k mod 20)\<rparr>"
    and least: "\<forall>j < length ?grid.
         euclid (hexToRgb (?grid ! k)) (0, 0, 0) \<le> euclid (hexToRgb (?grid ! j)) (0, 0, 0)"
    by auto
  from least [rule_format, of 1]
  have "euclid (hexToRgb (?grid ! k)) (0, 0, 0)
      \<le> euclid (hexToRgb (?grid ! 1)) (0, 0, 0)"
    by simp
  then have le: "distanceSq (hexToRgb (?grid ! k)) (0, 0, 0)
      \<le> distanceSq (hexToRgb (?grid ! 1)) (0, 0, 0)"
    by (simp only: euclid_le_iff)
  from k have "k = 0 \<or> k = 1 \<or> k = 2" by auto
  with le have "k = 1"
    by (auto simp: rgb_eval isHexDigit_def digitValue_def)
  with pos have "findColorPosition ?grid ''pink'' = \<lparr>row = 0, col = 1\<rparr>"
    by simp
  with inst m show ?thesis by simp
qed

subsection \<open>Daily state store\<close>

lemma update_fresh: "k \<notin> fst ` set al \<Longrightarrow> AList.update k v al = al @ [(k, v)]"
  by (induction al) auto

lemma getDate_saved: "getDate (JObj (AList.update ''date'' v props)) = Some (Some v)"
  by (simp add: update_conv')

text \<open>
  Claim C7. If the persisted record's date key differs from today's date key (the record is
  an object whose \<^verbatim>\<open>date\<close> is not today's key, for example one saved yesterday), then
  \<open>loadGameState\<close> returns absent and removes the record: the storage it leaves behind has
  nothing under the storage key.
\<close>

theorem loadGameState_stale:
  "(localStorage STORAGE_KEY = Some (Parseable (JObj props)) \<longrightarrow>
      map_of props ''date'' \<noteq> Some (JStr today) \<longrightarrow>
      loadGameState today (Some localStorage) = (None, Some (localStorage(STORAGE_KEY := None))) \<and>
      (localStorage(STORAGE_KEY := None)) STORAGE_KEY = None) \<and>
   (yesterday \<noteq> today \<longrightarrow>
      loadGameState today (saveGameState yesterday state (Some localStorage)) =
        (None, Some (localStorage(STORAGE_KEY := None))))"
proof (intro conjI impI)
  assume "localStorage STORAGE_KEY = Some (Parseable (JObj props))"
    and "map_of props ''date'' \<noteq> Some (JStr today)"
  then show "loadGameState today (Some localStorage) = (None, Some (localStorage(STORAGE_KEY := None)))"
    by (simp add: loadGameState_def)
next
  show "(localStorage(STORAGE_KEY := None)) STORAGE_KEY = None"
    by simp
next
  assume "yesterday \<noteq> today"
  then show "loadGameState today (saveGameState yesterday state (Some localStorage)) =
        (None, Some (localStorage(STORAGE_KEY := None)))"
    by (simp add: loadGameState_def saveGameState_def JSON_stringify_def update_conv')
qed

theorem loadGameState_stale_witness:
  "loadGameState ''2026-11-03''
     (Some (map_of [(STORAGE_KEY, Parseable (JObj [(''guesses'', JArr []), (''currentClue'', JNum 1),
        (''gameStatus'', JStr ''playing''), (''hasSeenInstructions'', JBool True),
        (''date'', JStr ''2026-11-02'')]))])) =
     (None, Some ((map_of [(STORAGE_KEY, Parseable (JObj [(''guesses'', JArr []), (''currentClue'', JNum 1),
        (''gameStatus'', JStr ''playing''), (''hasSeenInstructions'', JBool True),
        (''date'', JStr ''2026-11-02'')]))])(STORAGE_KEY := None))) \<and>
   loadGameState ''2026-11-03''
     (saveGameState ''2026-11-02'' [(''guesses'', JArr []), (''currentClue'', JNum 1),
        (''gameStatus'', JStr ''playing''), (''hasSeenInstructions'', JBool True)] (Some (map_of []))) =
     (None, Some ((map_of [])(STORAGE_KEY := None)))"
  using loadGameState_stale [of
      "(map_of [(STORAGE_KEY, Parseable (JObj [(''guesses'', JArr []), (''currentClue'', JNum 1),
        (''gameStatus'', JStr ''playing''), (''hasSeenInstructions'', JBool True),
        (''date'', JStr ''2026-11-02'')]))])"
      "[(''guesses'', JArr []), (''currentClue'', JNum 1),
        (''gameStatus'', JStr ''playing''), (''hasSeenInstructions'', JBool True),
        (''date'', JStr ''2026-11-02'')]"
      "''2026-11-03''" "''2026-11-02''"
      "[(''guesses'', JArr []), (''currentClue'', JNum 1),
        (''gameStatus'', JStr ''playing''), (''hasSeenInstructions'', JBool True)]"]
    loadGameState_stale [of "map_of []" "[]" "''2026-11-03''" "''2026-11-02''"
      "[(''guesses'', JArr []), (''currentClue'', JNum 1),
        (''gameStatus'', JStr ''playing''), (''hasSeenInstructions'', JBool True)]"]
  by simp

text \<open>
  Claim C8 says that a record that fails to deserialize is discarded and that
  \<open>loadGameState\<close> reports absent. The \<^verbatim>\<open>catch\<close> clause only returns \<^verbatim>\<open>null\<close>: after the
  call the storage still holds the corrupt text.
\<close>

theorem loadGameState_corrupt_counterexample:
  "snd (loadGameState ''2026-11-03'' (Some (map_of [(STORAGE_KEY, Unparseable ''{oops'')]))) =
     Some (map_of [(STORAGE_KEY, Unparseable ''{oops'')]) \<and>
   (map_of [(STORAGE_KEY, Unparseable ''{oops'')]) STORAGE_KEY = Some (Unparseable ''{oops'')"
  by (simp add: loadGameState_def)

text \<open>
  Claim C8, amended. If the persisted text fails to deserialize (\<^verbatim>\<open>JSON.parse\<close> throws, or
  the text is \<^verbatim>\<open>null\<close> and reading its date throws), \<open>loadGameState\<close> does not throw: it
  reports absent, as it does when no record exists, and leaves the storage unchanged.
\<close>

theorem loadGameState_corrupt:
  "(localStorage STORAGE_KEY = Some (Unparseable t) \<or>
    localStorage STORAGE_KEY = Some (Parseable JNull) \<longrightarrow>
      loadGameState today (Some localStorage) = (None, Some localStorage)) \<and>
   (localStorage STORAGE_KEY = None \<longrightarrow>
      loadGameState today (Some localStorage) = (None, Some localStorage))"
  by (auto simp: loadGameState_def)

theorem loadGameState_corrupt_witness:
  "loadGameState ''2026-11-03'' (Some (map_of [(STORAGE_KEY, Unparseable ''{oops'')])) =
     (None, Some (map_of [(STORAGE_KEY, Unparseable ''{oops'')])) \<and>
   loadGameState ''2026-11-03'' (Some (map_of [])) = (None, Some (map_of []))"
  using loadGameState_corrupt [of "(map_of [(STORAGE_KEY, Unparseable ''{oops'')])" "''{oops''" "''2026-11-03''"]
    loadGameState_corrupt [of "map_of []" "''{oops''" "''2026-11-03''"]
  by simp

text \<open>
  Claim C9. Round trip: for every state \<open>state\<close> without a date key, \<open>saveGameState\<close>
  followed by \<open>loadGameState\<close> on the same day (in the browser) returns the record that is
  \<open>state\<close> with today's date key added.
\<close>

theorem save_load_roundtrip:
  assumes "''date'' \<notin> fst ` set state"
  shows "loadGameState today (saveGameState today state (Some localStorage)) =
     (Some (JObj (state @ [(''date'', JStr today)])),
      Some (localStorage(STORAGE_KEY \<mapsto> Parseable (JObj (state @ [(''date'', JStr today)])))))"
proof -
  from assms have "map_of state ''date'' = None"
    by (simp add: map_of_eq_None_iff)
  then have "getDate (JObj (state @ [(''date'', JStr today)])) = Some (Some (JStr today))"
    by (simp add: map_add_def)
  then show ?thesis
    using assms
    by (simp add: loadGameState_def saveGameState_def JSON_stringify_def update_fresh
        del: getDate.simps)
qed

theorem save_load_roundtrip_witness:
  "''date'' \<notin> fst ` set [(''guesses'', JArr []), (''currentClue'', JNum 1),
        (''gameStatus'', JStr ''playing''), (''hasSeenInstructions'', JBool True)] \<and>
   loadGameState ''2026-11-03''
     (saveGameState ''2026-11-03'' [(''guesses'', JArr []), (''currentClue'', JNum 1),
        (''gameStatus'', JStr ''playing''), (''hasSeenInstructions'', JBool True)] (Some (map_of []))) =
     (Some (JObj [(''guesses'', JArr []), (''currentClue'', JNum 1),
        (''gameStatus'', JStr ''playing''), (''hasSeenInstructions'', JBool True),
        (''date'', JStr ''2026-11-03'')]),
      Some (map_of [(STORAGE_KEY, Parseable (JObj [(''guesses'', JArr []), (''currentClue'', JNum 1),
        (''gameStatus'', JStr ''playing''), (''hasSeenInstructions'', JBool True),
        (''date'', JStr ''2026-11-03'')]))]))"
proof -
  have fresh: "''date'' \<notin> fst ` set [(''guesses'', JArr []), (''currentClue'', JNum 1),
        (''gameStatus'', JStr ''playing''), (''hasSeenInstructions'', JBool True)]"
    by simp
  from save_load_roundtrip [OF fresh, of "''2026-11-03''" "map_of []"] fresh
  show ?thesis by simp
qed

subsection \<open>Session controller\<close>

lemma lowerChar_hex:
  "lowerChar CHR ''#'' = CHR ''#''"
  "lowerChar CHR ''0'' = CHR ''0''" "lowerChar CHR ''1'' = CHR ''1''"
  "lowerChar CHR ''2'' = CHR ''2''" "lowerChar CHR ''3'' = CHR ''3''"
  "lowerChar CHR ''4'' = CHR ''4''" "lowerChar CHR ''5'' = CHR ''5''"
  "lowerChar CHR ''6'' = CHR ''6''" "lowerChar CHR ''7'' = CHR ''7''"
  "lowerChar CHR ''8'' = CHR ''8''" "lowerChar CHR ''9'' = CHR ''9''"
  "lowerChar CHR ''A'' = CHR ''a''" "lowerChar CHR ''B'' = CHR ''b''"
  "lowerChar CHR ''C'' = CHR ''c''" "lowerChar CHR ''D'' = CHR ''d''"
  "lowerChar CHR ''E'' = CHR ''e''" "lowerChar CHR ''F'' = CHR ''f''"
  by (simp_all add: lowerChar_def)

lemma gridColors_position:
  assumes "k < 320" and "toLowerCase (gridColors ! k) = toLowerCase q"
    and "list_all (\<lambda>c. toLowerCase c \<noteq> toLowerCase q) (take k gridColors)"
  shows "findColorPosition gridColors q = \<lparr>row = int (k div 20), col = int (k mod 20)\<rparr>"
proof -
  from assms(1) have "k < length gridColors"
    by (simp add: gridColors_length)
  moreover note assms(2)
  moreover have "\<forall>j < k. toLowerCase (gridColors ! j) \<noteq> toLowerCase q"
  proof -
    from assms(3) have "\<forall>j < k. toLowerCase (take k gridColors ! j) \<noteq> toLowerCase q"
      using assms(1) by (simp add: list_all_length gridColors_length)
    then show ?thesis by simp
  qed
  ultimately show ?thesis
    by (rule findColorPosition_exact)
qed

lemma gridColors_target: "findColorPosition gridColors ''#FFB3E0'' = \<lparr>row = 1, col = 18\<rparr>"
  using gridColors_position [of 38 "''#FFB3E0''"]
  by (simp add: gridColors_def toLowerCase_def lowerChar_hex)

lemma gridColors_first: "findColorPosition gridColors ''#FFE5E5'' = \<lparr>row = 0, col = 0\<rparr>"
  using gridColors_position [of 0 "''#FFE5E5''"]
  by (simp add: gridColors_def)

lemma gridColors_second: "findColorPosition gridColors ''#FFEDE5'' = \<lparr>row = 0, col = 1\<rparr>"
  using gridColors_position [of 1 "''#FFEDE5''"]
  by (simp add: gridColors_def toLowerCase_def lowerChar_hex)

lemma gridColors_third: "findColorPosition gridColors ''#FFF5E5'' = \<lparr>row = 0, col = 2\<rparr>"
  using gridColors_position [of 2 "''#FFF5E5''"]
  by (simp add: gridColors_def toLowerCase_def lowerChar_hex)

text \<open>
  A call made while no timer is pending, followed by its timer: the guess is appended to
  the history, and status and clue counter follow from the clicked colour and the new
  length of the history.
\<close>

lemma handleColorClick_alone:
  assumes "gameState st = Playing" and "length (guesses st) < 3" and "timers st = []"
  shows "guesses (fireTimer (handleColorClick st c)) =
       guesses st @ [\<lparr>color = c,
         isClose = isWithinProximity (findColorPosition (colors st) c) (targetPosition st) 1,
         position = findColorPosition (colors st) c\<rparr>] \<and>
     colors (fireTimer (handleColorClick st c)) = colors st \<and>
     timers (fireTimer (handleColorClick st c)) = [] \<and>
     (if toLowerCase c = toLowerCase targetColor
      then gameState (fireTimer (handleColorClick st c)) = Won \<and>
           currentClue (fireTimer (handleColorClick st c)) = currentClue st
      else if length (guesses (fireTimer (handleColorClick st c))) = 3
      then gameState (fireTimer (handleColorClick st c)) = Lost \<and>
           currentClue (fireTimer (handleColorClick st c)) = 3
      else gameState (fireTimer (handleColorClick st c)) = Playing \<and>
           currentClue (fireTimer (handleColorClick st c)) =
             int (length (guesses (fireTimer (handleColorClick st c)))) + 1)"
  using assms
  by (auto simp: handleColorClick_def fireTimer_def timerBody_def targetPosition_def Let_def)

text \<open>
  Claim C1. For every call of \<open>handleColorClick\<close> while the status is \<open>Playing\<close> and fewer
  than three guesses exist, a new guess is appended to the history, and status and clue
  counter follow. The code does not do this for a call made while the timer of an earlier
  call is pending (the buttons stay enabled for those 200 ms): the body of the later timer
  builds the history from the \<^verbatim>\<open>guesses\<close> of its own render and overwrites what the earlier
  body wrote. On the generated grid, from the fresh state, the clicks \<^verbatim>\<open>#FFE5E5\<close> and
  \<^verbatim>\<open>#FFEDE5\<close> with both timers firing after the second click leave one guess and clue
  counter 2, where the same clicks one after the other leave two guesses and clue counter
  3. With two guesses made, the clicks \<^verbatim>\<open>#FFF5E5\<close> and then \<^verbatim>\<open>#FFB3E0\<close> (the target) end the
  game as \<open>Lost\<close> when the first timer fires and turn it into \<open>Won\<close> when the second does.
\<close>

theorem handleColorClick_overlapping:
  "fireTimer (fireTimer (handleColorClick (handleColorClick
       \<lparr>colors = generateColorGrid, guesses = [], currentClue = 1, gameState = Playing,
        timers = []\<rparr> ''#FFE5E5'') ''#FFEDE5'')) =
     \<lparr>colors = generateColorGrid,
      guesses = [\<lparr>color = ''#FFEDE5'', isClose = False, position = \<lparr>row = 0, col = 1\<rparr>\<rparr>],
      currentClue = 2, gameState = Playing, timers = []\<rparr> \<and>
   fireTimer (handleColorClick (fireTimer (handleColorClick
       \<lparr>colors = generateColorGrid, guesses = [], currentClue = 1, gameState = Playing,
        timers = []\<rparr> ''#FFE5E5'')) ''#FFEDE5'') =
     \<lparr>colors = generateColorGrid,
      guesses = [\<lparr>color = ''#FFE5E5'', isClose = False, position = \<lparr>row = 0, col = 0\<rparr>\<rparr>,
                 \<lparr>color = ''#FFEDE5'', isClose = False, position = \<lparr>row = 0, col = 1\<rparr>\<rparr>],
      currentClue = 3, gameState = Playing, timers = []\<rparr> \<and>
   fireTimer (handleColorClick (handleColorClick
       \<lparr>colors = generateColorGrid,
        guesses = [\<lparr>color = ''#FFE5E5'', isClose = False, position = \<lparr>row = 0, col = 0\<rparr>\<rparr>,
                   \<lparr>color = ''#FFEDE5'', isClose = False, position = \<lparr>row = 0, col = 1\<rparr>\<rparr>],
        currentClue = 3, gameState = Playing, timers = []\<rparr> ''#FFF5E5'') ''#FFB3E0'') =
     \<lparr>colors = generateColorGrid,
      guesses = [\<lparr>color = ''#FFE5E5'', isClose = False, position = \<lparr>row = 0, col = 0\<rparr>\<rparr>,
                 \<lparr>color = ''#FFEDE5'', isClose = False, position = \<lparr>row = 0, col = 1\<rparr>\<rparr>,
                 \<lparr>color = ''#FFF5E5'', isClose = False, position = \<lparr>row = 0, col = 2\<rparr>\<rparr>],
      currentClue = 3, gameState = Lost,
      timers = [\<lparr>clickedColor = ''#FFB3E0'',
        seenGuesses = [\<lparr>color = ''#FFE5E5'', isClose = False, position = \<lparr>row = 0, col = 0\<rparr>\<rparr>,
                       \<lparr>color = ''#FFEDE5'', isClose = False, position = \<lparr>row = 0, col = 1\<rparr>\<rparr>]\<rparr>]\<rparr> \<and>
   fireTimer (fireTimer (handleColorClick (handleColorClick
       \<lparr>colors = generateColorGrid,
        guesses = [\<lparr>color = ''#FFE5E5'', isClose = False, position = \<lparr>row = 0, col = 0\<rparr>\<rparr>,
                   \<lparr>color = ''#FFEDE5'', isClose = False, position = \<lparr>row = 0, col = 1\<rparr>\<rparr>],
        currentClue = 3, gameState = Playing, timers = []\<rparr> ''#FFF5E5'') ''#FFB3E0'')) =
     \<lparr>colors = generateColorGrid,
      guesses = [\<lparr>color = ''#FFE5E5'', isClose = False, position = \<lparr>row = 0, col = 0\<rparr>\<rparr>,
                 \<lparr>color = ''#FFEDE5'', isClose = False, position = \<lparr>row = 0, col = 1\<rparr>\<rparr>,
                 \<lparr>color = ''#FFB3E0'', isClose = False, position = \<lparr>row = 1, col = 18\<rparr>\<rparr>],
      currentClue = 3, gameState = Won, timers = []\<rparr>"
  by (simp add: handleColorClick_def fireTimer_def timerBody_def targetPosition_def
      generateColorGrid_value gridColors_target gridColors_first gridColors_second
      gridColors_third isWithinProximity_def targetColor_def toLowerCase_def lowerChar_hex)

theorem handleColorClick_overlapping_witness:
  "length (guesses (fireTimer (fireTimer (handleColorClick (handleColorClick
       \<lparr>colors = generateColorGrid, guesses = [], currentClue = 1, gameState = Playing,
        timers = []\<rparr> ''#FFE5E5'') ''#FFEDE5'')))) = 1 \<and>
   length (guesses (fireTimer (handleColorClick (fireTimer (handleColorClick
       \<lparr>colors = generateColorGrid, guesses = [], currentClue = 1, gameState = Playing,
        timers = []\<rparr> ''#FFE5E5'')) ''#FFEDE5''))) = 2 \<and>
   gameState (fireTimer (handleColorClick (handleColorClick
       \<lparr>colors = generateColorGrid,
        guesses = [\<lparr>color = ''#FFE5E5'', isClose = False, position = \<lparr>row = 0, col = 0\<rparr>\<rparr>,
                   \<lparr>color = ''#FFEDE5'', isClose = False, position = \<lparr>row = 0, col = 1\<rparr>\<rparr>],
        currentClue = 3, gameState = Playing, timers = []\<rparr> ''#FFF5E5'') ''#FFB3E0'')) = Lost \<and>
   gameState (fireTimer (fireTimer (handleColorClick (handleColorClick
       \<lparr>colors = generateColorGrid,
        guesses = [\<lparr>color = ''#FFE5E5'', isClose = False, position = \<lparr>row = 0, col = 0\<rparr>\<rparr>,
                   \<lparr>color = ''#FFEDE5'', isClose = False, position = \<lparr>row = 0, col = 1\<rparr>\<rparr>],
        currentClue = 3, gameState = Playing, timers = []\<rparr> ''#FFF5E5'') ''#FFB3E0''))) = Won"
  apply (subst handleColorClick_overlapping [THEN conjunct2, THEN conjunct2, THEN conjunct2])
  apply (subst handleColorClick_overlapping [THEN conjunct2, THEN conjunct2, THEN conjunct1])
  apply (subst handleColorClick_overlapping [THEN conjunct2, THEN conjunct1])
  apply (subst handleColorClick_overlapping [THEN conjunct1])
  apply simp
  done

text \<open>
  Claim C2. A call of \<open>handleColorClick\<close> when the status is not \<open>Playing\<close>, or when three
  guesses exist already, changes nothing: history, clue counter and status stay as they
  are, and the call raises no error.
\<close>

theorem handleColorClick_noop:
  assumes "gameState st \<noteq> Playing \<or> 3 \<le> length (guesses st)"
  shows "handleColorClick st c = st"
  using assms by (auto simp: handleColorClick_def)

theorem handleColorClick_noop_witness:
  "handleColorClick
     \<lparr>colors = [], guesses = [], currentClue = 1, gameState = Won, timers = []\<rparr> ''#FFB3E0'' =
     \<lparr>colors = [], guesses = [], currentClue = 1, gameState = Won, timers = []\<rparr> \<and>
   handleColorClick
     \<lparr>colors = [],
      guesses = [\<lparr>color = ''#000000'', isClose = False, position = \<lparr>row = 0, col = 0\<rparr>\<rparr>,
                 \<lparr>color = ''#000001'', isClose = False, position = \<lparr>row = 0, col = 0\<rparr>\<rparr>,
                 \<lparr>color = ''#000002'', isClose = False, position = \<lparr>row = 0, col = 0\<rparr>\<rparr>],
      currentClue = 3, gameState = Playing, timers = []\<rparr> ''#FFB3E0'' =
     \<lparr>colors = [],
      guesses = [\<lparr>color = ''#000000'', isClose = False, position = \<lparr>row = 0, col = 0\<rparr>\<rparr>,
                 \<lparr>color = ''#000001'', isClose = False, position = \<lparr>row = 0, col = 0\<rparr>\<rparr>,
                 \<lparr>color = ''#000002'', isClose = False, position = \<lparr>row = 0, col = 0\<rparr>\<rparr>],
      currentClue = 3, gameState = Playing, timers = []\<rparr>"
  using handleColorClick_noop [of "\<lparr>colors = [], guesses = [], currentClue = 1, gameState = Won,
      timers = []\<rparr>" "''#FFB3E0''"]
    handleColorClick_noop [of "\<lparr>colors = [],
      guesses = [\<lparr>color = ''#000000'', isClose = False, position = \<lparr>row = 0, col = 0\<rparr>\<rparr>,
                 \<lparr>color = ''#000001'', isClose = False, position = \<lparr>row = 0, col = 0\<rparr>\<rparr>,
                 \<lparr>color = ''#000002'', isClose = False, position = \<lparr>row = 0, col = 0\<rparr>\<rparr>],
      currentClue = 3, gameState = Playing, timers = []\<rparr>" "''#FFB3E0''"]
  by simp

end
